theory Spec2Isabelle
  imports Main "HOL-Library.Word"
begin

unbundle bit_operations_syntax

section \<open>Errors: the GError slots of openslide-decode-jpeg.c\<close>

text \<open>
  A \<open>GError *\<close> variable is a slot that is either empty (\<open>NULL\<close>, here \<open>None\<close>) or
  holds one error with a domain, a code and a message. Every function of the file that
  takes \<open>GError **err\<close> is modelled as taking the contents of the caller's slot and
  returning its new contents; the caller's pointer itself is taken to be non-null.
  The only domain and code the file itself passes are \<open>OPENSLIDE_ERROR\<close> and
  \<open>OPENSLIDE_ERROR_FAILED\<close>; errors made by the file-access helpers may carry others.
\<close>

datatype error_domain = OPENSLIDE_ERROR | Other_domain string

datatype error_code = OPENSLIDE_ERROR_FAILED | Other_code int

record gerror =
  domain :: error_domain
  code :: error_code
  message :: string

type_synonym gerror_slot = "gerror option"

text \<open>
  GLib's \<open>g_set_error\<close>, \<open>g_propagate_error\<close> and \<open>g_prefix_error\<close>, as GLib
  documents them: setting or propagating into a slot that already holds an error leaves
  the old error in place (GLib logs a warning and drops the new one); propagating an
  empty source does nothing; prefixing an empty slot does nothing.
\<close>

definition g_set_error ::
  "gerror_slot \<Rightarrow> error_domain \<Rightarrow> error_code \<Rightarrow> string \<Rightarrow> gerror_slot" where
  "g_set_error slot d c msg =
     (case slot of
        None \<Rightarrow> Some \<lparr>domain = d, code = c, message = msg\<rparr>
      | Some old \<Rightarrow> Some old)"

definition g_propagate_error :: "gerror_slot \<Rightarrow> gerror_slot \<Rightarrow> gerror_slot" where
  "g_propagate_error dest src =
     (case src of
        None \<Rightarrow> dest
      | Some e \<Rightarrow> (case dest of None \<Rightarrow> Some e | Some old \<Rightarrow> Some old))"

definition g_prefix_error :: "gerror_slot \<Rightarrow> string \<Rightarrow> gerror_slot" where
  "g_prefix_error slot prefix =
     (case slot of
        None \<Rightarrow> None
      | Some e \<Rightarrow> Some (e\<lparr>message := prefix @ message e\<rparr>))"

text \<open>The \<open>%d\<close> conversion of \<open>g_set_error\<close>'s format string, for a C \<open>int\<close>.\<close>

definition digit_char :: "nat \<Rightarrow> char" where
  "digit_char d = ''0123456789'' ! d"

fun dec_nat :: "nat \<Rightarrow> string" where
  "dec_nat n = (if n < 10 then [digit_char n] else dec_nat (n div 10) @ [digit_char (n mod 10)])"

declare dec_nat.simps [simp del]

definition printf_d :: "int \<Rightarrow> string" where
  "printf_d i = (if i < 0 then CHR ''-'' # dec_nat (nat (- i)) else dec_nat (nat i))"


section \<open>The error manager and the decompression object\<close>

text \<open>
  \<open>struct openslide_jpeg_error_mgr\<close>: the three callbacks of libjpeg's
  \<open>jpeg_error_mgr\<close> that the file overrides, and the pending error \<open>err\<close>. A callback
  field holds a function pointer; the model distinguishes the null pointer, libjpeg's own
  handler (what \<open>jpeg_std_error\<close> installs) and this file's handler
  (\<open>my_error_exit\<close>, \<open>my_output_message\<close>, \<open>my_emit_message\<close>). The \<open>env\<close> field
  points at the \<open>jmp_buf\<close> of the one \<open>setjmp\<close> of the calling function; a
  \<open>longjmp\<close> is the outcome \<open>Longjmp\<close> below, handled by that caller.
\<close>

datatype handler = Null_handler | Libjpeg_std | Openslide_my

record openslide_jpeg_error_mgr =
  error_exit :: handler
  output_message :: handler
  emit_message :: handler
  err :: gerror_slot

datatype J_COLOR_SPACE = JCS_UNKNOWN | JCS_GRAYSCALE | JCS_RGB

text \<open>
  \<open>struct jpeg_decompress_struct\<close>, restricted to the fields the file reads or writes.
  \<open>cinfo_err\<close> is the field \<open>cinfo->err\<close> (renamed: the error manager has an \<open>err\<close>
  of its own); \<open>None\<close> is the null pointer. The error manager is owned by the
  decompression object, so it is stored in it by value.
\<close>

record jpeg_decompress_struct =
  cinfo_err :: "openslide_jpeg_error_mgr option"
  out_color_space :: J_COLOR_SPACE
  output_width :: "32 word"
  output_height :: "32 word"
  output_components :: int
  rec_outbuf_height :: int

text \<open>
  The slice allocator, as far as the session is concerned: how many decompression objects
  and how many error managers are live.
\<close>

record heap =
  live_cinfo :: nat
  live_jerr :: nat


section \<open>The codec (libjpeg) as a parameter\<close>

text \<open>
  libjpeg is not part of the repository. What a library entry point does on a given source
  is a parameter of the model: a \<open>call\<close> is the sequence of callbacks the entry point
  makes into the error manager before it returns. \<open>Emit_message lvl msg k\<close> calls
  \<open>cinfo->err->emit_message(cinfo, lvl)\<close> and, if the handler returns, goes on with
  \<open>k\<close>; \<open>Error_exit msg\<close> calls \<open>cinfo->err->error_exit(cinfo)\<close>, which by
  libjpeg's contract does not return. \<open>msg\<close> is the text that
  \<open>cinfo->err->format_message\<close> produces for the message at hand.
\<close>

datatype 'a call =
    Return 'a
  | Emit_message int string "'a call"
  | Error_exit string

text \<open>
  What the caller of an entry point sees: it returned, control arrived at the
  \<open>setjmp\<close> through \<open>longjmp\<close>, or control went to a handler that is not this
  file's (a null or libjpeg's own), which the model does not follow.
\<close>

datatype 'a outcome = Returned 'a | Longjmp | Foreign

type_synonym row = "nat \<Rightarrow> 8 word"

record 's started =
  s_output_width :: "32 word"
  s_output_height :: "32 word"
  s_output_components :: int
  s_rec_outbuf_height :: int
  s_state :: 's

text \<open>
  The entry points the file calls, for one source. \<open>jpeg_src\<close> is the source set-up
  (\<open>_openslide_jpeg_stdio_src\<close> or \<open>_openslide_jpeg_mem_src\<close>).
  \<open>jpeg_calc_output_dimensions\<close> yields the \<open>output_width\<close> and \<open>output_height\<close> it
  stores; \<open>jpeg_start_decompress\<close>, given the \<open>out_color_space\<close> set before it, yields
  the output fields it stores and the state \<open>'s\<close> of the running decompressor;
  \<open>jpeg_read_scanlines\<close>, given that state and \<open>max_lines\<close>, yields the rows it stored
  in the staging buffers (\<open>rows_read\<close> is their number) and the next state;
  \<open>output_scanline\<close> reads \<open>cinfo->output_scanline\<close> off the state.
  A staging row is read by sample index; a sample (\<open>JSAMPLE\<close>) is an unsigned
  8-bit value, as in libjpeg's 8-bit build. \<open>jpeg_destroy_decompress\<close> makes no callback
  and changes no field the file reads afterwards, so it has no entry here.
\<close>

record 's jpeg_codec =
  jpeg_create_decompress :: "unit call"
  jpeg_src :: "unit call"
  jpeg_read_header :: "int call"
  jpeg_calc_output_dimensions :: "(32 word \<times> 32 word) call"
  jpeg_start_decompress :: "J_COLOR_SPACE \<Rightarrow> ('s started) call"
  jpeg_read_scanlines :: "'s \<Rightarrow> 32 word \<Rightarrow> (row list \<times> 's) call"
  output_scanline :: "'s \<Rightarrow> 32 word"

text \<open>The return codes of \<open>jpeg_read_header\<close>, from jpeglib.h.\<close>

definition JPEG_SUSPENDED :: int where "JPEG_SUSPENDED = 0"
definition JPEG_HEADER_OK :: int where "JPEG_HEADER_OK = 1"
definition JPEG_HEADER_TABLES_ONLY :: int where "JPEG_HEADER_TABLES_ONLY = 2"


section \<open>The callbacks\<close>

text \<open>
  \<open>my_output_message\<close> formats the message and stores it in the pending-error slot of
  the error manager.
\<close>

definition my_output_message ::
  "string \<Rightarrow> jpeg_decompress_struct \<Rightarrow> unit outcome \<times> jpeg_decompress_struct" where
  "my_output_message buffer cinfo =
     (case cinfo_err cinfo of
        None \<Rightarrow> (Foreign, cinfo)
      | Some jerr \<Rightarrow>
          (Returned (),
           cinfo\<lparr>cinfo_err := Some (jerr\<lparr>err :=
             g_set_error (err jerr) OPENSLIDE_ERROR OPENSLIDE_ERROR_FAILED buffer\<rparr>)\<rparr>))"

text \<open>A call through the \<open>output_message\<close> pointer of the installed error manager.\<close>

definition call_output_message ::
  "string \<Rightarrow> jpeg_decompress_struct \<Rightarrow> unit outcome \<times> jpeg_decompress_struct" where
  "call_output_message buffer cinfo =
     (case cinfo_err cinfo of
        None \<Rightarrow> (Foreign, cinfo)
      | Some jerr \<Rightarrow>
          (case output_message jerr of
             Openslide_my \<Rightarrow> my_output_message buffer cinfo
           | Libjpeg_std \<Rightarrow> (Foreign, cinfo)
           | Null_handler \<Rightarrow> (Foreign, cinfo)))"

text \<open>\<open>my_error_exit\<close>: output the message, then \<open>longjmp\<close>.\<close>

definition my_error_exit ::
  "string \<Rightarrow> jpeg_decompress_struct \<Rightarrow> unit outcome \<times> jpeg_decompress_struct" where
  "my_error_exit buffer cinfo =
     (case call_output_message buffer cinfo of
        (Returned u, cinfo') \<Rightarrow> (Longjmp, cinfo')
      | (Longjmp, cinfo') \<Rightarrow> (Longjmp, cinfo')
      | (Foreign, cinfo') \<Rightarrow> (Foreign, cinfo'))"

definition call_error_exit ::
  "string \<Rightarrow> jpeg_decompress_struct \<Rightarrow> unit outcome \<times> jpeg_decompress_struct" where
  "call_error_exit buffer cinfo =
     (case cinfo_err cinfo of
        None \<Rightarrow> (Foreign, cinfo)
      | Some jerr \<Rightarrow>
          (case error_exit jerr of
             Openslide_my \<Rightarrow> my_error_exit buffer cinfo
           | Libjpeg_std \<Rightarrow> (Foreign, cinfo)
           | Null_handler \<Rightarrow> (Foreign, cinfo)))"

text \<open>\<open>my_emit_message\<close>: a negative level is a warning and goes to \<open>error_exit\<close>.\<close>

definition my_emit_message ::
  "int \<Rightarrow> string \<Rightarrow> jpeg_decompress_struct \<Rightarrow> unit outcome \<times> jpeg_decompress_struct" where
  "my_emit_message msg_level buffer cinfo =
     (if msg_level < 0 then call_error_exit buffer cinfo else (Returned (), cinfo))"

definition call_emit_message ::
  "int \<Rightarrow> string \<Rightarrow> jpeg_decompress_struct \<Rightarrow> unit outcome \<times> jpeg_decompress_struct" where
  "call_emit_message msg_level buffer cinfo =
     (case cinfo_err cinfo of
        None \<Rightarrow> (Foreign, cinfo)
      | Some jerr \<Rightarrow>
          (case emit_message jerr of
             Openslide_my \<Rightarrow> my_emit_message msg_level buffer cinfo
           | Libjpeg_std \<Rightarrow> (Foreign, cinfo)
           | Null_handler \<Rightarrow> (Foreign, cinfo)))"

text \<open>
  Running an entry point against the decompression object: each callback goes through the
  pointer installed in \<open>cinfo->err\<close>. An \<open>error_exit\<close> handler that returns is outside
  libjpeg's contract and is not followed.
\<close>

fun run :: "'a call \<Rightarrow> jpeg_decompress_struct \<Rightarrow> 'a outcome \<times> jpeg_decompress_struct" where
  "run (Return x) cinfo = (Returned x, cinfo)"
| "run (Emit_message msg_level buffer k) cinfo =
     (case call_emit_message msg_level buffer cinfo of
        (Returned u, cinfo') \<Rightarrow> run k cinfo'
      | (Longjmp, cinfo') \<Rightarrow> (Longjmp, cinfo')
      | (Foreign, cinfo') \<Rightarrow> (Foreign, cinfo'))"
| "run (Error_exit buffer) cinfo =
     (case call_error_exit buffer cinfo of
        (Returned u, cinfo') \<Rightarrow> (Foreign, cinfo')
      | (Longjmp, cinfo') \<Rightarrow> (Longjmp, cinfo')
      | (Foreign, cinfo') \<Rightarrow> (Foreign, cinfo'))"


section \<open>The session life cycle\<close>

text \<open>\<open>g_assert\<close> failing ends the process; so does control leaving the model.\<close>

datatype stop = Assertion_failed | Outside_model

text \<open>\<open>_openslide_jpeg_create_decompress\<close>: a zeroed decompression object.\<close>

definition openslide_jpeg_create_decompress :: "heap \<Rightarrow> jpeg_decompress_struct \<times> heap" where
  "openslide_jpeg_create_decompress hp =
     (\<lparr>cinfo_err = None, out_color_space = JCS_UNKNOWN, output_width = 0, output_height = 0,
       output_components = 0, rec_outbuf_height = 0\<rparr>,
      hp\<lparr>live_cinfo := Suc (live_cinfo hp)\<rparr>)"

definition jpeg_std_error :: "openslide_jpeg_error_mgr \<Rightarrow> openslide_jpeg_error_mgr" where
  "jpeg_std_error jerr =
     jerr\<lparr>error_exit := Libjpeg_std, output_message := Libjpeg_std, emit_message := Libjpeg_std\<rparr>"

text \<open>
  \<open>_openslide_jpeg_init_decompress\<close>: a zeroed error manager, libjpeg's defaults, the
  three handlers of this file, then libjpeg's \<open>jpeg_create_decompress\<close>, which keeps
  \<open>cinfo->err\<close> and can already fail.
\<close>

definition openslide_jpeg_init_decompress ::
  "'s jpeg_codec \<Rightarrow> jpeg_decompress_struct \<Rightarrow> heap \<Rightarrow>
   unit outcome \<times> jpeg_decompress_struct \<times> heap" where
  "openslide_jpeg_init_decompress codec cinfo hp =
     (let jerr0 = \<lparr>error_exit = Null_handler, output_message = Null_handler,
                   emit_message = Null_handler, err = None\<rparr>;
          jerr = (jpeg_std_error jerr0)\<lparr>error_exit := Openslide_my,
                   output_message := Openslide_my, emit_message := Openslide_my\<rparr>;
          hp' = hp\<lparr>live_jerr := Suc (live_jerr hp)\<rparr>;
          cinfo' = cinfo\<lparr>cinfo_err := Some jerr\<rparr>
      in case run (jpeg_create_decompress codec) cinfo' of (out, cinfo'') \<Rightarrow> (out, cinfo'', hp'))"

text \<open>
  \<open>_openslide_jpeg_propagate_error\<close>: the assertion on the installed handler, then the
  pending error moves to the caller's slot and the stored one is reset.
\<close>

definition openslide_jpeg_propagate_error ::
  "gerror_slot \<Rightarrow> jpeg_decompress_struct \<Rightarrow> stop + gerror_slot \<times> jpeg_decompress_struct" where
  "openslide_jpeg_propagate_error errp cinfo =
     (case cinfo_err cinfo of
        None \<Rightarrow> Inl Outside_model
      | Some jerr \<Rightarrow>
          if error_exit jerr \<noteq> Openslide_my then Inl Assertion_failed
          else Inr (g_propagate_error errp (err jerr),
                    cinfo\<lparr>cinfo_err := Some (jerr\<lparr>err := None\<rparr>)\<rparr>))"

text \<open>
  \<open>_openslide_jpeg_destroy_decompress\<close>: with an error manager installed, the two
  assertions, then the manager is freed; the decompression object is freed in any case.
\<close>

definition openslide_jpeg_destroy_decompress ::
  "jpeg_decompress_struct \<Rightarrow> heap \<Rightarrow> stop + heap" where
  "openslide_jpeg_destroy_decompress cinfo hp =
     (case cinfo_err cinfo of
        None \<Rightarrow> Inr (hp\<lparr>live_cinfo := live_cinfo hp - 1\<rparr>)
      | Some jerr \<Rightarrow>
          if error_exit jerr \<noteq> Openslide_my then Inl Assertion_failed
          else if err jerr \<noteq> None then Inl Assertion_failed
          else Inr (hp\<lparr>live_jerr := live_jerr hp - 1, live_cinfo := live_cinfo hp - 1\<rparr>))"


section \<open>The dimension probe\<close>

text \<open>
  What \<open>jpeg_get_dimensions\<close> leaves behind: its return value, the contents of \<open>*w\<close>,
  \<open>*h\<close> and \<open>*err\<close>, and the allocator.
\<close>

record probe_result =
  p_ok :: bool
  p_w :: "32 word"
  p_h :: "32 word"
  p_err :: gerror_slot
  p_heap :: heap

text \<open>
  The branch \<open>setjmp(env) == 0\<close> of \<open>jpeg_get_dimensions\<close> after
  \<open>_openslide_jpeg_init_decompress\<close>, up to the label \<open>DONE\<close>. It yields \<open>result\<close>,
  \<open>*w\<close>, \<open>*h\<close> and \<open>*err\<close>.
\<close>

definition get_dimensions_body ::
  "'s jpeg_codec \<Rightarrow> 32 word \<Rightarrow> 32 word \<Rightarrow> gerror_slot \<Rightarrow> jpeg_decompress_struct \<Rightarrow>
   (bool \<times> 32 word \<times> 32 word \<times> gerror_slot) outcome \<times> jpeg_decompress_struct" where
  "get_dimensions_body codec w h errp cinfo =
     (case run (jpeg_src codec) cinfo of
        (Longjmp, c1) \<Rightarrow> (Longjmp, c1)
      | (Foreign, c1) \<Rightarrow> (Foreign, c1)
      | (Returned u, c1) \<Rightarrow>
     (case run (jpeg_read_header codec) c1 of
        (Longjmp, c2) \<Rightarrow> (Longjmp, c2)
      | (Foreign, c2) \<Rightarrow> (Foreign, c2)
      | (Returned header_result, c2) \<Rightarrow>
          if header_result \<noteq> JPEG_HEADER_OK \<and> header_result \<noteq> JPEG_HEADER_TABLES_ONLY
          then (Returned (False, w, h,
                  g_set_error errp OPENSLIDE_ERROR OPENSLIDE_ERROR_FAILED
                    ''Couldn't read JPEG header''), c2)
          else
     (case run (jpeg_calc_output_dimensions codec) c2 of
        (Longjmp, c3) \<Rightarrow> (Longjmp, c3)
      | (Foreign, c3) \<Rightarrow> (Foreign, c3)
      | (Returned (ow, oh), c3) \<Rightarrow>
          (Returned (True, ow, oh, errp), c3\<lparr>output_width := ow, output_height := oh\<rparr>))))"

text \<open>
  The label \<open>DONE\<close> of \<open>jpeg_get_dimensions\<close>: the session is destroyed and the
  function returns.
\<close>

definition get_dimensions_done ::
  "bool \<Rightarrow> 32 word \<Rightarrow> 32 word \<Rightarrow> gerror_slot \<Rightarrow> jpeg_decompress_struct \<Rightarrow> heap \<Rightarrow>
   stop + probe_result" where
  "get_dimensions_done result w h errp cinfo hp =
     (case openslide_jpeg_destroy_decompress cinfo hp of
        Inl s \<Rightarrow> Inl s
      | Inr hp' \<Rightarrow> Inr \<lparr>p_ok = result, p_w = w, p_h = h, p_err = errp, p_heap = hp'\<rparr>)"

text \<open>The whole branch \<open>setjmp(env) == 0\<close>, from \<open>_openslide_jpeg_init_decompress\<close> on.\<close>

definition get_dimensions_try ::
  "'s jpeg_codec \<Rightarrow> 32 word \<Rightarrow> 32 word \<Rightarrow> gerror_slot \<Rightarrow> jpeg_decompress_struct \<Rightarrow> heap \<Rightarrow>
   (bool \<times> 32 word \<times> 32 word \<times> gerror_slot) outcome \<times> jpeg_decompress_struct \<times> heap" where
  "get_dimensions_try codec w h errp cinfo hp =
     (case openslide_jpeg_init_decompress codec cinfo hp of
        (Returned u, c0, hp') \<Rightarrow>
          (case get_dimensions_body codec w h errp c0 of (out, c1) \<Rightarrow> (out, c1, hp'))
      | (Longjmp, c0, hp') \<Rightarrow> (Longjmp, c0, hp')
      | (Foreign, c0, hp') \<Rightarrow> (Foreign, c0, hp'))"

text \<open>
  \<open>jpeg_get_dimensions\<close>. \<open>w\<close>, \<open>h\<close> and \<open>errp\<close> are the contents of \<open>*w\<close>,
  \<open>*h\<close> and \<open>*err\<close> at the call. After a \<open>longjmp\<close> the \<open>else\<close> branch propagates
  the pending error (\<open>result\<close> is still \<open>false\<close> and nothing was stored through \<open>w\<close>,
  \<open>h\<close> or \<open>err\<close>); every path then goes through \<open>DONE\<close>.
\<close>

definition jpeg_get_dimensions ::
  "'s jpeg_codec \<Rightarrow> 32 word \<Rightarrow> 32 word \<Rightarrow> gerror_slot \<Rightarrow> heap \<Rightarrow> stop + probe_result" where
  "jpeg_get_dimensions codec w h errp hp =
     (case openslide_jpeg_create_decompress hp of (cinfo, hp1) \<Rightarrow>
     (case get_dimensions_try codec w h errp cinfo hp1 of
        (Returned (result, w', h', errp'), c, hp2) \<Rightarrow>
          get_dimensions_done result w' h' errp' c hp2
      | (Longjmp, c, hp2) \<Rightarrow>
          (case openslide_jpeg_propagate_error errp c of
             Inl s \<Rightarrow> Inl s
           | Inr (errp', c') \<Rightarrow> get_dimensions_done False w h errp' c' hp2)
      | (Foreign, c, hp2) \<Rightarrow> Inl Outside_model))"


section \<open>The pixel decoder\<close>

text \<open>
  The destination \<open>_dest\<close> is the caller's memory; \<open>dest32\<close> and \<open>dest8\<close> are two
  views of it. The model records the stores the decoder makes, in order: \<open>Store32 k v\<close>
  is \<open>((uint32_t *) _dest)[k] = v\<close> and \<open>Store8 k v\<close> is
  \<open>((uint8_t *) _dest)[k] = v\<close>. The moving pointers \<open>dest32\<close> and \<open>dest8\<close> are
  kept as element offsets from \<open>_dest\<close>.
\<close>

datatype store = Store32 nat "32 word" | Store8 nat "8 word"

text \<open>
  The value stored for pixel \<open>i\<close> of a staging row in the RGB branch. A sample is
  promoted to \<open>int\<close> and shifted, and the result is or-ed into the unsigned constant.
\<close>

definition rgb_pixel :: "row \<Rightarrow> nat \<Rightarrow> 32 word" where
  "rgb_pixel r i =
     0xFF000000 OR push_bit 16 (ucast (r (i * 3 + 0))) OR push_bit 8 (ucast (r (i * 3 + 1)))
       OR ucast (r (i * 3 + 2))"

text \<open>
  The two \<open>for\<close> loops over \<open>i\<close>, an \<open>int32_t\<close> running from \<open>0\<close> while it is below
  \<open>(int32_t) cinfo->output_width\<close> (the bound \<open>n\<close>).
\<close>

function copy_gray :: "row \<Rightarrow> nat \<Rightarrow> int \<Rightarrow> int \<Rightarrow> store list" where
  "copy_gray r d8 i n =
     (if i < n then Store8 (d8 + nat i) (r (nat i)) # copy_gray r d8 (i + 1) n else [])"
  by pat_completeness auto
termination
  by (relation "measure (\<lambda>(r, d8, i, n). nat (n - i))") auto

function copy_rgb :: "row \<Rightarrow> nat \<Rightarrow> int \<Rightarrow> int \<Rightarrow> store list" where
  "copy_rgb r d32 i n =
     (if i < n then Store32 (d32 + nat i) (rgb_pixel r (nat i)) # copy_rgb r d32 (i + 1) n
      else [])"
  by pat_completeness auto
termination
  by (relation "measure (\<lambda>(r, d32, i, n). nat (n - i))") auto

declare copy_gray.simps [simp del]
declare copy_rgb.simps [simp del]

text \<open>
  "Copy a row": the body of the loop \<open>while (rows_read > 0)\<close>. It yields the stores made
  and the advanced \<open>dest32\<close> and \<open>dest8\<close>.
\<close>

definition copy_row ::
  "jpeg_decompress_struct \<Rightarrow> row \<Rightarrow> nat \<Rightarrow> nat \<Rightarrow> store list \<times> nat \<times> nat" where
  "copy_row cinfo r dest32 dest8 =
     (if output_components cinfo = 1
      then (copy_gray r dest8 0 (sint (output_width cinfo)),
            dest32, dest8 + unat (output_width cinfo))
      else (copy_rgb r dest32 0 (sint (output_width cinfo)),
            dest32 + unat (output_width cinfo), dest8))"

text \<open>The loop \<open>while (rows_read > 0)\<close> over the rows of one batch, from \<open>buffer[0]\<close> up.\<close>

fun copy_rows ::
  "jpeg_decompress_struct \<Rightarrow> row list \<Rightarrow> nat \<Rightarrow> nat \<Rightarrow> store list \<times> nat \<times> nat" where
  "copy_rows cinfo [] dest32 dest8 = ([], dest32, dest8)"
| "copy_rows cinfo (r # rs) dest32 dest8 =
     (case copy_row cinfo r dest32 dest8 of
        (st, dest32', dest8') \<Rightarrow>
          (case copy_rows cinfo rs dest32' dest8' of
             (st', dest32'', dest8'') \<Rightarrow> (st @ st', dest32'', dest8'')))"

text \<open>
  The loop \<open>while (cinfo->output_scanline < cinfo->output_height)\<close>. Nothing in the file
  bounds the number of its rounds (a codec that keeps returning no rows keeps it running),
  so the result is an option and \<open>None\<close> is a loop that never ends. \<open>stores\<close> are the
  stores made so far.
\<close>

partial_function (option) decode_loop ::
  "'s jpeg_codec \<Rightarrow> jpeg_decompress_struct \<Rightarrow> 's \<Rightarrow> nat \<Rightarrow> nat \<Rightarrow> store list \<Rightarrow>
   (unit outcome \<times> jpeg_decompress_struct \<times> store list) option" where
  "decode_loop codec cinfo s dest32 dest8 stores =
     (if output_scanline codec s < output_height cinfo
      then (case run (jpeg_read_scanlines codec s (word_of_int (rec_outbuf_height cinfo))) cinfo of
              (Returned (rows, s'), c1) \<Rightarrow>
                (case copy_rows c1 rows dest32 dest8 of
                   (st, dest32', dest8') \<Rightarrow> decode_loop codec c1 s' dest32' dest8' (stores @ st))
            | (Longjmp, c1) \<Rightarrow> Some (Longjmp, c1, stores)
            | (Foreign, c1) \<Rightarrow> Some (Foreign, c1, stores))
      else Some (Returned (), cinfo, stores))"

declare decode_loop.simps [code]

text \<open>The message of the dimension check, as \<open>g_set_error\<close> formats it.\<close>

definition mismatch_message :: "32 word \<Rightarrow> 32 word \<Rightarrow> 32 word \<Rightarrow> 32 word \<Rightarrow> string" where
  "mismatch_message w h width height =
     ''Dimensional mismatch reading JPEG, expected '' @ printf_d (sint w) @ ''x'' @
     printf_d (sint h) @ '', got '' @ printf_d (sint width) @ ''x'' @ printf_d (sint height)"

text \<open>
  The branch \<open>setjmp(env) == 0\<close> of \<open>jpeg_decode\<close> after
  \<open>_openslide_jpeg_init_decompress\<close>, up to the label \<open>DONE\<close>. It yields \<open>result\<close>
  and \<open>*err\<close>, the decompression object and the stores made. The staging rows
  (\<open>buffer\<close>, \<open>row_size\<close>) hold what \<open>jpeg_read_scanlines\<close> yields; their allocation
  and release are not tracked.
\<close>

definition decode_body ::
  "'s jpeg_codec \<Rightarrow> bool \<Rightarrow> 32 word \<Rightarrow> 32 word \<Rightarrow> gerror_slot \<Rightarrow> jpeg_decompress_struct \<Rightarrow>
   ((bool \<times> gerror_slot) outcome \<times> jpeg_decompress_struct \<times> store list) option" where
  "decode_body codec grayscale w h errp cinfo =
     (case run (jpeg_src codec) cinfo of
        (Longjmp, c1) \<Rightarrow> Some (Longjmp, c1, [])
      | (Foreign, c1) \<Rightarrow> Some (Foreign, c1, [])
      | (Returned u, c1) \<Rightarrow>
     (case run (jpeg_read_header codec) c1 of
        (Longjmp, c2) \<Rightarrow> Some (Longjmp, c2, [])
      | (Foreign, c2) \<Rightarrow> Some (Foreign, c2, [])
      | (Returned header_result, c2) \<Rightarrow>
          if header_result \<noteq> JPEG_HEADER_OK \<and> header_result \<noteq> JPEG_HEADER_TABLES_ONLY
          then Some (Returned (False,
                  g_set_error errp OPENSLIDE_ERROR OPENSLIDE_ERROR_FAILED
                    ''Couldn't read JPEG header''), c2, [])
          else
     (let c3 = c2\<lparr>out_color_space := (if grayscale then JCS_GRAYSCALE else JCS_RGB)\<rparr>
      in case run (jpeg_start_decompress codec (out_color_space c3)) c3 of
        (Longjmp, c4) \<Rightarrow> Some (Longjmp, c4, [])
      | (Foreign, c4) \<Rightarrow> Some (Foreign, c4, [])
      | (Returned st, c4) \<Rightarrow>
     (let c5 = c4\<lparr>output_width := s_output_width st, output_height := s_output_height st,
                  output_components := s_output_components st,
                  rec_outbuf_height := s_rec_outbuf_height st\<rparr>;
          width = output_width c5;
          height = output_height c5
      in if w \<noteq> width \<or> h \<noteq> height
         then Some (Returned (False,
                 g_set_error errp OPENSLIDE_ERROR OPENSLIDE_ERROR_FAILED
                   (mismatch_message w h width height)), c5, [])
         else
     (case decode_loop codec c5 (s_state st) 0 0 [] of
        None \<Rightarrow> None
      | Some (Longjmp, c6, stores) \<Rightarrow> Some (Longjmp, c6, stores)
      | Some (Foreign, c6, stores) \<Rightarrow> Some (Foreign, c6, stores)
      | Some (Returned u', c6, stores) \<Rightarrow> Some (Returned (True, errp), c6, stores))))))"

text \<open>
  What \<open>jpeg_decode\<close> leaves behind: its return value, the stores made into \<open>_dest\<close>,
  the contents of \<open>*err\<close>, and the allocator.
\<close>

record decode_result =
  d_ok :: bool
  d_stores :: "store list"
  d_err :: gerror_slot
  d_heap :: heap

definition decode_done ::
  "bool \<Rightarrow> store list \<Rightarrow> gerror_slot \<Rightarrow> jpeg_decompress_struct \<Rightarrow> heap \<Rightarrow> stop + decode_result" where
  "decode_done result stores errp cinfo hp =
     (case openslide_jpeg_destroy_decompress cinfo hp of
        Inl s \<Rightarrow> Inl s
      | Inr hp' \<Rightarrow> Inr \<lparr>d_ok = result, d_stores = stores, d_err = errp, d_heap = hp'\<rparr>)"

definition decode_try ::
  "'s jpeg_codec \<Rightarrow> bool \<Rightarrow> 32 word \<Rightarrow> 32 word \<Rightarrow> gerror_slot \<Rightarrow> jpeg_decompress_struct \<Rightarrow> heap \<Rightarrow>
   ((bool \<times> gerror_slot) outcome \<times> jpeg_decompress_struct \<times> store list \<times> heap) option" where
  "decode_try codec grayscale w h errp cinfo hp =
     (case openslide_jpeg_init_decompress codec cinfo hp of
        (Returned u, c0, hp') \<Rightarrow>
          (case decode_body codec grayscale w h errp c0 of
             None \<Rightarrow> None
           | Some (out, c1, stores) \<Rightarrow> Some (out, c1, stores, hp'))
      | (Longjmp, c0, hp') \<Rightarrow> Some (Longjmp, c0, [], hp')
      | (Foreign, c0, hp') \<Rightarrow> Some (Foreign, c0, [], hp'))"

text \<open>
  \<open>jpeg_decode\<close>, with \<open>w\<close> and \<open>h\<close> the expected dimensions. \<open>None\<close> is a call
  that never returns.
\<close>

definition jpeg_decode ::
  "'s jpeg_codec \<Rightarrow> bool \<Rightarrow> 32 word \<Rightarrow> 32 word \<Rightarrow> gerror_slot \<Rightarrow> heap \<Rightarrow>
   (stop + decode_result) option" where
  "jpeg_decode codec grayscale w h errp hp =
     (case openslide_jpeg_create_decompress hp of (cinfo, hp1) \<Rightarrow>
     (case decode_try codec grayscale w h errp cinfo hp1 of
        None \<Rightarrow> None
      | Some (Returned (result, errp'), c, stores, hp2) \<Rightarrow>
          Some (decode_done result stores errp' c hp2)
      | Some (Longjmp, c, stores, hp2) \<Rightarrow>
          (case openslide_jpeg_propagate_error errp c of
             Inl s \<Rightarrow> Some (Inl s)
           | Inr (errp', c') \<Rightarrow> Some (decode_done False stores errp' c' hp2))
      | Some (Foreign, c, stores, hp2) \<Rightarrow> Some (Inl Outside_model)))"


section \<open>The file and buffer entry points\<close>

text \<open>
  The file-access helpers are not in the file; they are parameters. \<open>openslide_fopen\<close>
  is \<open>_openslide_fopen(filename, "rb", err)\<close>: it yields the stream (or \<open>None\<close> for
  \<open>NULL\<close>) and the new contents of \<open>*err\<close>. \<open>fseeko\<close> is
  \<open>fseeko(f, offset, SEEK_SET)\<close> with its \<open>int\<close> result. \<open>openslide_io_error\<close> is
  \<open>_openslide_io_error(err, msg)\<close>, yielding the new contents of \<open>*err\<close>.
  \<open>stream_codec f pos\<close> is what libjpeg does when it reads stream \<open>f\<close> from position
  \<open>pos\<close>; a stream just opened is at position 0, and a successful \<open>fseeko\<close> leaves it
  at \<open>offset\<close>.
\<close>

record 's file_env =
  openslide_fopen :: "string \<Rightarrow> gerror_slot \<Rightarrow> nat option \<times> gerror_slot"
  fseeko :: "nat \<Rightarrow> 64 word \<Rightarrow> int"
  openslide_io_error :: "gerror_slot \<Rightarrow> string \<Rightarrow> gerror_slot"
  stream_codec :: "nat \<Rightarrow> 64 word \<Rightarrow> 's jpeg_codec"

text \<open>The calls made on streams, in order.\<close>

datatype file_op = Fopen string | Fseeko nat "64 word" | Fclose nat

text \<open>\<open>_openslide_jpeg_read_dimensions\<close>, yielding also the stream calls it made.\<close>

definition openslide_jpeg_read_dimensions ::
  "'s file_env \<Rightarrow> string \<Rightarrow> 64 word \<Rightarrow> 32 word \<Rightarrow> 32 word \<Rightarrow> gerror_slot \<Rightarrow> heap \<Rightarrow>
   stop + probe_result \<times> file_op list" where
  "openslide_jpeg_read_dimensions env filename offset w h errp hp =
     (case openslide_fopen env filename errp of
        (None, errp1) \<Rightarrow>
          Inr (\<lparr>p_ok = False, p_w = w, p_h = h, p_err = errp1, p_heap = hp\<rparr>, [Fopen filename])
      | (Some f, errp1) \<Rightarrow>
          if offset \<noteq> 0 \<and> fseeko env f offset = - 1
          then Inr (\<lparr>p_ok = False, p_w = w, p_h = h,
                      p_err = openslide_io_error env errp1 ''Cannot seek to offset'',
                      p_heap = hp\<rparr>,
                    [Fopen filename, Fseeko f offset, Fclose f])
          else (case jpeg_get_dimensions (stream_codec env f (if offset \<noteq> 0 then offset else 0))
                       w h errp1 hp of
                  Inl s \<Rightarrow> Inl s
                | Inr success \<Rightarrow>
                    Inr (success,
                         Fopen filename # (if offset \<noteq> 0 then [Fseeko f offset] else [])
                           @ [Fclose f])))"

text \<open>\<open>_openslide_jpeg_decode_buffer_dimensions\<close>; \<open>codec\<close> is libjpeg on the buffer.\<close>

definition openslide_jpeg_decode_buffer_dimensions ::
  "'s jpeg_codec \<Rightarrow> 32 word \<Rightarrow> 32 word \<Rightarrow> gerror_slot \<Rightarrow> heap \<Rightarrow> stop + probe_result" where
  "openslide_jpeg_decode_buffer_dimensions codec w h errp hp =
     jpeg_get_dimensions codec w h errp hp"

text \<open>\<open>_openslide_jpeg_read\<close>, yielding also the stream calls it made.\<close>

definition openslide_jpeg_read ::
  "'s file_env \<Rightarrow> string \<Rightarrow> 64 word \<Rightarrow> 32 word \<Rightarrow> 32 word \<Rightarrow> gerror_slot \<Rightarrow> heap \<Rightarrow>
   (stop + decode_result \<times> file_op list) option" where
  "openslide_jpeg_read env filename offset w h errp hp =
     (case openslide_fopen env filename errp of
        (None, errp1) \<Rightarrow>
          Some (Inr (\<lparr>d_ok = False, d_stores = [], d_err = errp1, d_heap = hp\<rparr>,
                     [Fopen filename]))
      | (Some f, errp1) \<Rightarrow>
          if offset \<noteq> 0 \<and> fseeko env f offset = - 1
          then Some (Inr (\<lparr>d_ok = False, d_stores = [],
                            d_err = openslide_io_error env errp1 ''Cannot seek to offset'',
                            d_heap = hp\<rparr>,
                          [Fopen filename, Fseeko f offset, Fclose f]))
          else (case jpeg_decode (stream_codec env f (if offset \<noteq> 0 then offset else 0))
                       False w h errp1 hp of
                  None \<Rightarrow> None
                | Some (Inl s) \<Rightarrow> Some (Inl s)
                | Some (Inr success) \<Rightarrow>
                    Some (Inr (success,
                               Fopen filename # (if offset \<noteq> 0 then [Fseeko f offset] else [])
                                 @ [Fclose f]))))"

definition openslide_jpeg_decode_buffer ::
  "'s jpeg_codec \<Rightarrow> 32 word \<Rightarrow> 32 word \<Rightarrow> gerror_slot \<Rightarrow> heap \<Rightarrow>
   (stop + decode_result) option" where
  "openslide_jpeg_decode_buffer codec w h errp hp = jpeg_decode codec False w h errp hp"

definition openslide_jpeg_decode_buffer_gray ::
  "'s jpeg_codec \<Rightarrow> 32 word \<Rightarrow> 32 word \<Rightarrow> gerror_slot \<Rightarrow> heap \<Rightarrow>
   (stop + decode_result) option" where
  "openslide_jpeg_decode_buffer_gray codec w h errp hp = jpeg_decode codec True w h errp hp"


section \<open>Associated images\<close>

text \<open>
  \<open>struct associated_image\<close>: the base fields \<open>ops\<close>, \<open>w\<close> and \<open>h\<close>, then
  \<open>filename\<close> and \<open>offset\<close>. The only operations table of the file is
  \<open>jpeg_associated_ops\<close>. \<open>osr->associated_images\<close> is a hash table from names to
  images; \<open>g_hash_table_insert\<close> replaces the entry of a name that is present.
\<close>

datatype associated_image_ops = Jpeg_associated_ops

record associated_image =
  ops :: associated_image_ops
  base_w :: "32 word"
  base_h :: "32 word"
  filename :: string
  offset :: "64 word"

type_synonym associated_images = "string \<rightharpoonup> associated_image"

text \<open>What \<open>_openslide_jpeg_add_associated_image\<close> leaves behind.\<close>

record add_result =
  a_ok :: bool
  a_images :: associated_images
  a_err :: gerror_slot
  a_heap :: heap
  a_ops :: "file_op list"

text \<open>
  \<open>_openslide_jpeg_add_associated_image\<close>. \<open>w0\<close> and \<open>h0\<close> are the indeterminate
  contents of the locals \<open>w\<close> and \<open>h\<close> before the probe.
\<close>

definition openslide_jpeg_add_associated_image ::
  "'s file_env \<Rightarrow> associated_images \<Rightarrow> string \<Rightarrow> string \<Rightarrow> 64 word \<Rightarrow> 32 word \<Rightarrow> 32 word \<Rightarrow>
   gerror_slot \<Rightarrow> heap \<Rightarrow> stop + add_result" where
  "openslide_jpeg_add_associated_image env images name fname off w0 h0 errp hp =
     (case openslide_jpeg_read_dimensions env fname off w0 h0 errp hp of
        Inl s \<Rightarrow> Inl s
      | Inr (r, fops) \<Rightarrow>
          if \<not> p_ok r
          then Inr \<lparr>a_ok = False, a_images = images,
                    a_err = g_prefix_error (p_err r)
                              (''Can't read '' @ name @ '' associated image: ''),
                    a_heap = p_heap r, a_ops = fops\<rparr>
          else
            (let img = \<lparr>ops = Jpeg_associated_ops, base_w = p_w r, base_h = p_h r,
                        filename = fname, offset = off\<rparr>
             in Inr \<lparr>a_ok = True, a_images = images(name \<mapsto> img), a_err = p_err r,
                     a_heap = p_heap r, a_ops = fops\<rparr>))"

text \<open>\<open>get_associated_image_data\<close>, the \<open>get_argb_data\<close> operation of the table.\<close>

definition get_associated_image_data ::
  "'s file_env \<Rightarrow> associated_image \<Rightarrow> gerror_slot \<Rightarrow> heap \<Rightarrow>
   (stop + decode_result \<times> file_op list) option" where
  "get_associated_image_data env img errp hp =
     openslide_jpeg_read env (filename img) (offset img) (base_w img) (base_h img) errp hp"


section \<open>Vocabulary of the statements\<close>

text \<open>
  What an entry point does under the handlers of this file, read off its callbacks: the
  text of the first warning or fatal error it raises (\<open>Inl\<close>), or the value it returns
  when it raises none (\<open>Inr\<close>).
\<close>

fun first_failure :: "'a call \<Rightarrow> string + 'a" where
  "first_failure (Return x) = Inr x"
| "first_failure (Emit_message msg_level buffer k) =
     (if msg_level < 0 then Inl buffer else first_failure k)"
| "first_failure (Error_exit buffer) = Inl buffer"

text \<open>
  The error manager as \<open>_openslide_jpeg_init_decompress\<close> sets it up, with pending
  error \<open>e\<close>; the error that \<open>my_output_message\<close> makes of a codec message; the
  decompression object after a \<open>longjmp\<close> with that message.
\<close>

definition bridge :: "gerror_slot \<Rightarrow> openslide_jpeg_error_mgr" where
  "bridge e = \<lparr>error_exit = Openslide_my, output_message = Openslide_my,
               emit_message = Openslide_my, err = e\<rparr>"

definition library_error :: "string \<Rightarrow> gerror" where
  "library_error buffer =
     \<lparr>domain = OPENSLIDE_ERROR, code = OPENSLIDE_ERROR_FAILED, message = buffer\<rparr>"

definition jumped :: "jpeg_decompress_struct \<Rightarrow> string \<Rightarrow> jpeg_decompress_struct" where
  "jumped c b = c\<lparr>cinfo_err := Some (bridge (Some (library_error b)))\<rparr>"

text \<open>The two header outcomes that both operations let through.\<close>

definition header_accepted :: "int \<Rightarrow> bool" where
  "header_accepted header_result \<longleftrightarrow>
     header_result = JPEG_HEADER_OK \<or> header_result = JPEG_HEADER_TABLES_ONLY"

text \<open>
  The entry points of the probe in the order the probe calls them: the first failure, or
  \<open>None\<close> for a header outcome that is not accepted, or the computed dimensions.
\<close>

definition probe_script :: "'s jpeg_codec \<Rightarrow> string + (32 word \<times> 32 word) option" where
  "probe_script codec =
     (case first_failure (jpeg_create_decompress codec) of Inl b \<Rightarrow> Inl b | Inr u \<Rightarrow>
     (case first_failure (jpeg_src codec) of Inl b \<Rightarrow> Inl b | Inr u' \<Rightarrow>
     (case first_failure (jpeg_read_header codec) of Inl b \<Rightarrow> Inl b | Inr hr \<Rightarrow>
        if \<not> header_accepted hr then Inr None
        else (case first_failure (jpeg_calc_output_dimensions codec) of
                Inl b \<Rightarrow> Inl b | Inr d \<Rightarrow> Inr (Some d)))))"

definition probe_failed :: "32 word \<Rightarrow> 32 word \<Rightarrow> gerror_slot \<Rightarrow> heap \<Rightarrow> probe_result" where
  "probe_failed w h e hp = \<lparr>p_ok = False, p_w = w, p_h = h, p_err = e, p_heap = hp\<rparr>"

text \<open>
  The zeroed decompression object; the colour space \<open>jpeg_decode\<close> asks for; the
  decompression object after \<open>jpeg_start_decompress\<close> returned \<open>st\<close>.
\<close>

definition fresh_cinfo :: jpeg_decompress_struct where
  "fresh_cinfo = \<lparr>cinfo_err = None, out_color_space = JCS_UNKNOWN, output_width = 0,
     output_height = 0, output_components = 0, rec_outbuf_height = 0\<rparr>"

definition color_space_of :: "bool \<Rightarrow> J_COLOR_SPACE" where
  "color_space_of grayscale = (if grayscale then JCS_GRAYSCALE else JCS_RGB)"

definition started_cinfo ::
  "jpeg_decompress_struct \<Rightarrow> bool \<Rightarrow> 's started \<Rightarrow> jpeg_decompress_struct" where
  "started_cinfo c grayscale st =
     c\<lparr>out_color_space := color_space_of grayscale,
       output_width := s_output_width st, output_height := s_output_height st,
       output_components := s_output_components st,
       rec_outbuf_height := s_rec_outbuf_height st\<rparr>"

text \<open>A row that some call of \<open>jpeg_read_scanlines\<close> yields on this source.\<close>

definition delivered :: "'s jpeg_codec \<Rightarrow> row \<Rightarrow> bool" where
  "delivered codec r \<longleftrightarrow>
     (\<exists>s max_lines rows s'.
        first_failure (jpeg_read_scanlines codec s max_lines) = Inr (rows, s') \<and> r \<in> set rows)"

text \<open>
  A source that the codec reads without complaint: no entry point raises a warning or an
  error, the header is a normal one, \<open>jpeg_start_decompress\<close> stores the dimensions
  that \<open>jpeg_calc_output_dimensions\<close> computes, in either colour mode, and every call
  of \<open>jpeg_read_scanlines\<close> made while rows remain, in whatever state of the
  decompressor, advances \<open>output_scanline\<close>.
\<close>

definition valid_source :: "'s jpeg_codec \<Rightarrow> bool" where
  "valid_source codec \<longleftrightarrow>
     first_failure (jpeg_create_decompress codec) = Inr () \<and>
     first_failure (jpeg_src codec) = Inr () \<and>
     first_failure (jpeg_read_header codec) = Inr JPEG_HEADER_OK \<and>
     (\<exists>ow oh.
        first_failure (jpeg_calc_output_dimensions codec) = Inr (ow, oh) \<and>
        (\<forall>grayscale. \<exists>st.
           first_failure (jpeg_start_decompress codec (color_space_of grayscale)) = Inr st \<and>
           s_output_width st = ow \<and> s_output_height st = oh \<and>
           (\<forall>s. output_scanline codec s < oh \<longrightarrow>
              (\<exists>rows s'.
                 first_failure (jpeg_read_scanlines codec s (word_of_int (s_rec_outbuf_height st))) =
                   Inr (rows, s') \<and>
                 output_scanline codec s < output_scanline codec s'))))"


section \<open>Example sources\<close>

text \<open>
  Concrete inputs on which the statements below are evaluated. \<open>solid_codec w h r\<close> is
  the codec on a well-formed stream of a \<open>w\<close> by \<open>h\<close> image whose every row is
  \<open>r\<close>: it traces the start of the image, delivers one row per call and keeps the
  number of delivered rows as its state. \<open>red_row\<close> is a row of pure red RGB pixels.
\<close>

definition hp0 :: heap where
  "hp0 = \<lparr>live_cinfo = 0, live_jerr = 0\<rparr>"

definition red_row :: row where
  "red_row k = (if k mod 3 = 0 then 0xFF else 0)"

definition solid_codec :: "32 word \<Rightarrow> 32 word \<Rightarrow> row \<Rightarrow> 32 word jpeg_codec" where
  "solid_codec w h r =
     \<lparr>jpeg_create_decompress = Return (),
      jpeg_src = Return (),
      jpeg_read_header = Emit_message 1 ''Start of Image'' (Return JPEG_HEADER_OK),
      jpeg_calc_output_dimensions = Return (w, h),
      jpeg_start_decompress =
        (\<lambda>cs. Return \<lparr>s_output_width = w, s_output_height = h,
                       s_output_components = (if cs = JCS_GRAYSCALE then 1 else 3),
                       s_rec_outbuf_height = 1, s_state = 0\<rparr>),
      jpeg_read_scanlines = (\<lambda>s max_lines. Return ([r], s + 1)),
      output_scanline = (\<lambda>s. s)\<rparr>"

text \<open>A 2 by 2 red image whose data ends after the first row.\<close>

definition truncated_codec :: "32 word jpeg_codec" where
  "truncated_codec =
     (solid_codec 2 2 red_row)\<lparr>jpeg_read_scanlines :=
        (\<lambda>s max_lines.
           if s = 0 then Return ([red_row], 1)
           else Emit_message (- 1) ''Premature end of JPEG file'' (Return ([red_row], s + 1)))\<rparr>"

text \<open>A stream whose header read suspends, and a stream that is no JPEG at all.\<close>

definition suspended_codec :: "32 word jpeg_codec" where
  "suspended_codec = (solid_codec 2 2 red_row)\<lparr>jpeg_read_header := Return JPEG_SUSPENDED\<rparr>"

definition not_jpeg_codec :: "32 word jpeg_codec" where
  "not_jpeg_codec =
     (solid_codec 0 0 red_row)\<lparr>jpeg_read_header :=
        Error_exit ''Not a JPEG file: starts with 0x49 0x49''\<rparr>"

text \<open>
  A tables-only stream: the header read reports \<open>JPEG_HEADER_TABLES_ONLY\<close> and libjpeg
  refuses what the two operations ask for next.
\<close>

definition tables_only_codec :: "32 word jpeg_codec" where
  "tables_only_codec =
     (solid_codec 0 0 red_row)\<lparr>jpeg_read_header := Return JPEG_HEADER_TABLES_ONLY,
        jpeg_calc_output_dimensions := Error_exit ''Improper call to JPEG library in state 200'',
        jpeg_start_decompress := (\<lambda>cs. Error_exit ''Improper call to JPEG library in state 200'')\<rparr>"

text \<open>
  A file system with one file, \<open>slide.tif\<close>, 8192 bytes long, that holds a 64 by 64
  red tile at offset 4096 and no JPEG elsewhere.
\<close>

definition slide_env :: "32 word file_env" where
  "slide_env =
     \<lparr>openslide_fopen =
        (\<lambda>name errp.
           if name = ''slide.tif'' then (Some 3, errp)
           else (None, g_set_error errp (Other_domain ''g-file-error-quark'') (Other_code 4)
                         (''Couldn't open '' @ name @ '': No such file or directory''))),
      fseeko = (\<lambda>f off. if 0 \<le> sint off \<and> sint off \<le> 8192 then 0 else - 1),
      openslide_io_error =
        (\<lambda>errp msg. g_set_error errp (Other_domain ''g-file-error-quark'') (Other_code 13)
                       (msg @ '': Invalid argument'')),
      stream_codec = (\<lambda>f pos. if pos = 4096 then solid_codec 64 64 red_row else not_jpeg_codec)\<rparr>"

section \<open>Codec calls under the installed handlers\<close>

lemma run_bridge:
  "cinfo_err c = Some (bridge None) \<Longrightarrow>
   run k c = (case first_failure k of
                Inr x \<Rightarrow> (Returned x, c)
              | Inl buffer \<Rightarrow> (Longjmp, c\<lparr>cinfo_err := Some (bridge (Some (library_error buffer)))\<rparr>))"
  by (induction k)
     (simp_all add: call_emit_message_def my_emit_message_def call_error_exit_def
        my_error_exit_def call_output_message_def my_output_message_def bridge_def
        g_set_error_def library_error_def)

lemma init_bridge:
  "openslide_jpeg_init_decompress codec c hp =
     (case first_failure (jpeg_create_decompress codec) of
        Inr u \<Rightarrow> (Returned (), c\<lparr>cinfo_err := Some (bridge None)\<rparr>,
                   hp\<lparr>live_jerr := Suc (live_jerr hp)\<rparr>)
      | Inl b \<Rightarrow> (Longjmp, c\<lparr>cinfo_err := Some (bridge (Some (library_error b)))\<rparr>,
                   hp\<lparr>live_jerr := Suc (live_jerr hp)\<rparr>))"
proof -
  have eq: "(jpeg_std_error \<lparr>error_exit = Null_handler, output_message = Null_handler,
                   emit_message = Null_handler, err = None\<rparr>)\<lparr>error_exit := Openslide_my,
                   output_message := Openslide_my, emit_message := Openslide_my\<rparr> = bridge None"
    by (simp add: jpeg_std_error_def bridge_def)
  show ?thesis
    unfolding openslide_jpeg_init_decompress_def Let_def eq
    by (simp add: run_bridge split: sum.splits)
qed

lemma destroy_bridge:
  "cinfo_err c = Some (bridge None) \<Longrightarrow>
   openslide_jpeg_destroy_decompress c hp =
     Inr (hp\<lparr>live_jerr := live_jerr hp - 1, live_cinfo := live_cinfo hp - 1\<rparr>)"
  by (simp add: openslide_jpeg_destroy_decompress_def bridge_def)

lemma propagate_bridge:
  "cinfo_err c = Some (bridge e) \<Longrightarrow>
   openslide_jpeg_propagate_error errp c =
     Inr (g_propagate_error errp e, c\<lparr>cinfo_err := Some (bridge None)\<rparr>)"
  by (simp add: openslide_jpeg_propagate_error_def bridge_def)

lemma body_bridge:
  "cinfo_err c = Some (bridge None) \<Longrightarrow>
   get_dimensions_body codec w h errp c =
     (case first_failure (jpeg_src codec) of
        Inl b \<Rightarrow> (Longjmp, c\<lparr>cinfo_err := Some (bridge (Some (library_error b)))\<rparr>)
      | Inr u \<Rightarrow>
     (case first_failure (jpeg_read_header codec) of
        Inl b \<Rightarrow> (Longjmp, c\<lparr>cinfo_err := Some (bridge (Some (library_error b)))\<rparr>)
      | Inr hr \<Rightarrow>
        if \<not> header_accepted hr
        then (Returned (False, w, h,
                g_set_error errp OPENSLIDE_ERROR OPENSLIDE_ERROR_FAILED
                  ''Couldn't read JPEG header''), c)
        else
     (case first_failure (jpeg_calc_output_dimensions codec) of
        Inl b \<Rightarrow> (Longjmp, c\<lparr>cinfo_err := Some (bridge (Some (library_error b)))\<rparr>)
      | Inr (ow, oh) \<Rightarrow>
          (Returned (True, ow, oh, errp), c\<lparr>output_width := ow, output_height := oh\<rparr>))))"
  by (simp add: get_dimensions_body_def run_bridge header_accepted_def split: sum.splits)

lemma jpeg_get_dimensions_script:
  "jpeg_get_dimensions codec w h errp hp =
     Inr (case probe_script codec of
            Inl b \<Rightarrow> probe_failed w h (g_propagate_error errp (Some (library_error b))) hp
          | Inr None \<Rightarrow>
              probe_failed w h (g_set_error errp OPENSLIDE_ERROR OPENSLIDE_ERROR_FAILED
                                  ''Couldn't read JPEG header'') hp
          | Inr (Some (ow, oh)) \<Rightarrow>
              \<lparr>p_ok = True, p_w = ow, p_h = oh, p_err = errp, p_heap = hp\<rparr>)"
  by (simp add: jpeg_get_dimensions_def openslide_jpeg_create_decompress_def
        get_dimensions_try_def init_bridge body_bridge probe_script_def
        get_dimensions_done_def destroy_bridge propagate_bridge probe_failed_def
      split: sum.splits)


section \<open>The copy loops and the scanline loop\<close>

lemma upt_int_step:
  "0 \<le> i \<Longrightarrow> i < n \<Longrightarrow> [nat i..<nat n] = nat i # [nat (i + 1)..<nat n]"
proof -
  assume a: "0 \<le> i" "i < n"
  then have "nat i < nat n" by linarith
  then have "[nat i..<nat n] = nat i # [Suc (nat i)..<nat n]" by (rule upt_conv_Cons)
  moreover from a have "Suc (nat i) = nat (i + 1)" by linarith
  ultimately show ?thesis by simp
qed

lemma copy_gray_map:
  "0 \<le> i \<Longrightarrow> copy_gray r d8 i n = map (\<lambda>j. Store8 (d8 + j) (r j)) [nat i..<nat n]"
proof (induction r d8 i n rule: copy_gray.induct)
  case (1 r d8 i n)
  show ?case
  proof (cases "i < n")
    case True
    have "copy_gray r d8 i n = Store8 (d8 + nat i) (r (nat i)) # copy_gray r d8 (i + 1) n"
      using True "1.prems" by (subst copy_gray.simps) simp
    also have "copy_gray r d8 (i + 1) n = map (\<lambda>j. Store8 (d8 + j) (r j)) [nat (i + 1)..<nat n]"
      using True "1.prems" by (intro "1.IH") simp_all
    finally show ?thesis
      using True "1.prems" by (simp only: upt_int_step list.map)
  next
    case False
    then have "nat n \<le> nat i" using "1.prems" by linarith
    with False show ?thesis by (subst copy_gray.simps) simp
  qed
qed

lemma copy_rgb_map:
  "0 \<le> i \<Longrightarrow> copy_rgb r d32 i n = map (\<lambda>j. Store32 (d32 + j) (rgb_pixel r j)) [nat i..<nat n]"
proof (induction r d32 i n rule: copy_rgb.induct)
  case (1 r d32 i n)
  show ?case
  proof (cases "i < n")
    case True
    have "copy_rgb r d32 i n = Store32 (d32 + nat i) (rgb_pixel r (nat i)) # copy_rgb r d32 (i + 1) n"
      using True "1.prems" by (subst copy_rgb.simps) simp
    also have "copy_rgb r d32 (i + 1) n =
        map (\<lambda>j. Store32 (d32 + j) (rgb_pixel r j)) [nat (i + 1)..<nat n]"
      using True "1.prems" by (intro "1.IH") simp_all
    finally show ?thesis
      using True "1.prems" by (simp only: upt_int_step list.map)
  next
    case False
    then have "nat n \<le> nat i" using "1.prems" by linarith
    with False show ?thesis by (subst copy_rgb.simps) simp
  qed
qed

lemma copy_rows_append:
  "copy_rows c (rs @ rs') d32 d8 =
     (case copy_rows c rs d32 d8 of
        (st, a, b) \<Rightarrow> (case copy_rows c rs' a b of (st', a', b') \<Rightarrow> (st @ st', a', b')))"
  by (induction rs arbitrary: d32 d8) (simp_all split: prod.splits)


lemma copy_rows_rgb:
  "output_components c \<noteq> 1 \<Longrightarrow>
   copy_rows c rows d32 d8 =
     (concat (map (\<lambda>k. map (\<lambda>i. Store32 (d32 + k * unat (output_width c) + i)
                                   (rgb_pixel (rows ! k) i))
                            [0..<nat (sint (output_width c))])
                  [0..<length rows]),
      d32 + length rows * unat (output_width c), d8)"
proof (induction rows rule: rev_induct)
  case Nil
  show ?case by simp
next
  case (snoc r rows)
  have old: "map (\<lambda>k. map (\<lambda>i. Store32 (d32 + k * unat (output_width c) + i)
                                   (rgb_pixel ((rows @ [r]) ! k) i))
                            [0..<nat (sint (output_width c))]) [0..<length rows] =
             map (\<lambda>k. map (\<lambda>i. Store32 (d32 + k * unat (output_width c) + i)
                                   (rgb_pixel (rows ! k) i))
                            [0..<nat (sint (output_width c))]) [0..<length rows]"
    by (rule map_cong) (simp_all add: nth_append)
  from snoc show ?case
    by (simp add: copy_rows_append copy_row_def copy_rgb_map old)
qed

lemma decode_loop_bridge:
  assumes run: "decode_loop codec c s d32 d8 st0 = Some y"
  shows "cinfo_err c = Some (bridge None) \<longrightarrow>
   (\<exists>rows. snd (snd y) = st0 @ fst (copy_rows c rows d32 d8) \<and> (\<forall>r\<in>set rows. delivered codec r)) \<and>
   (fst y = Returned () \<and> fst (snd y) = c \<or>
    (\<exists>b. fst y = Longjmp \<and>
          fst (snd y) = c\<lparr>cinfo_err := Some (bridge (Some (library_error b)))\<rparr>))"
proof (rule decode_loop.raw_induct [OF _ run])
  fix f :: "'a jpeg_codec \<Rightarrow> jpeg_decompress_struct \<Rightarrow> 'a \<Rightarrow> nat \<Rightarrow> nat \<Rightarrow> store list \<Rightarrow>
            (unit outcome \<times> jpeg_decompress_struct \<times> store list) option"
  fix codec cinfo s dest32 dest8 stores y
  assume IH: "\<And>codec cinfo s dest32 dest8 stores y.
    f codec cinfo s dest32 dest8 stores = Some y \<Longrightarrow>
    cinfo_err cinfo = Some (bridge None) \<longrightarrow>
    (\<exists>rows. snd (snd y) = stores @ fst (copy_rows cinfo rows dest32 dest8) \<and>
       (\<forall>r\<in>set rows. delivered codec r)) \<and>
    (fst y = Returned () \<and> fst (snd y) = cinfo \<or>
     (\<exists>b. fst y = Longjmp \<and>
        fst (snd y) = cinfo\<lparr>cinfo_err := Some (bridge (Some (library_error b)))\<rparr>))"
  assume eq: "(if output_scanline codec s < output_height cinfo
      then (case run (jpeg_read_scanlines codec s (word_of_int (rec_outbuf_height cinfo))) cinfo of
              (Returned (rows, s'), c1) \<Rightarrow>
                (case copy_rows c1 rows dest32 dest8 of
                   (st, dest32', dest8') \<Rightarrow> f codec c1 s' dest32' dest8' (stores @ st))
            | (Longjmp, c1) \<Rightarrow> Some (Longjmp, c1, stores)
            | (Foreign, c1) \<Rightarrow> Some (Foreign, c1, stores))
      else Some (Returned (), cinfo, stores)) = Some y"
  show "cinfo_err cinfo = Some (bridge None) \<longrightarrow>
    (\<exists>rows. snd (snd y) = stores @ fst (copy_rows cinfo rows dest32 dest8) \<and>
       (\<forall>r\<in>set rows. delivered codec r)) \<and>
    (fst y = Returned () \<and> fst (snd y) = cinfo \<or>
     (\<exists>b. fst y = Longjmp \<and>
        fst (snd y) = cinfo\<lparr>cinfo_err := Some (bridge (Some (library_error b)))\<rparr>))"
  proof
    assume br: "cinfo_err cinfo = Some (bridge None)"
    show "(\<exists>rows. snd (snd y) = stores @ fst (copy_rows cinfo rows dest32 dest8) \<and>
            (\<forall>r\<in>set rows. delivered codec r)) \<and>
          (fst y = Returned () \<and> fst (snd y) = cinfo \<or>
           (\<exists>b. fst y = Longjmp \<and>
              fst (snd y) = cinfo\<lparr>cinfo_err := Some (bridge (Some (library_error b)))\<rparr>))"
    proof (cases "output_scanline codec s < output_height cinfo")
      case False
      with eq have "y = (Returned (), cinfo, stores)" by simp
      then show ?thesis
        by (auto intro: exI [of _ "[]"])
    next
      case True
      note lt = this
      show ?thesis
      proof (cases "first_failure (jpeg_read_scanlines codec s (word_of_int (rec_outbuf_height cinfo)))")
        case (Inl b)
        with lt eq br
        have "y = (Longjmp, cinfo\<lparr>cinfo_err := Some (bridge (Some (library_error b)))\<rparr>, stores)"
          by (simp add: run_bridge)
        then show ?thesis by (auto intro: exI [of _ "[]"])
      next
        case (Inr p)
        obtain rows s' where p: "p = (rows, s')" by (cases p)
        obtain st a b where cr: "copy_rows cinfo rows dest32 dest8 = (st, a, b)"
          by (cases "copy_rows cinfo rows dest32 dest8")
        from lt eq br Inr p cr
        have rec: "f codec cinfo s' a b (stores @ st) = Some y"
          by (simp add: run_bridge)
        from IH [OF rec] br
        obtain rows' where
          st: "snd (snd y) = (stores @ st) @ fst (copy_rows cinfo rows' a b)" and
          dl: "\<forall>r\<in>set rows'. delivered codec r" and
          out: "fst y = Returned () \<and> fst (snd y) = cinfo \<or>
            (\<exists>b. fst y = Longjmp \<and>
              fst (snd y) = cinfo\<lparr>cinfo_err := Some (bridge (Some (library_error b)))\<rparr>)"
          by blast
        have "\<forall>r\<in>set rows. delivered codec r"
          using Inr p unfolding delivered_def by blast
        with dl have all: "\<forall>r\<in>set (rows @ rows'). delivered codec r" by auto
        have "snd (snd y) = stores @ fst (copy_rows cinfo (rows @ rows') dest32 dest8)"
          using st cr by (simp add: copy_rows_append split: prod.splits)
        with all out show ?thesis by blast
      qed
    qed
  qed
qed

lemma copy_rows_fields:
  "output_components c = output_components c' \<Longrightarrow> output_width c = output_width c' \<Longrightarrow>
   copy_rows c rows d32 d8 = copy_rows c' rows d32 d8"
  by (induction rows arbitrary: d32 d8) (simp_all add: copy_row_def)

lemma top_byte:
  "drop_bit 24 (0xFF000000 OR push_bit 16 (ucast (r :: 8 word)) OR push_bit 8 (ucast (g :: 8 word))
       OR ucast (b :: 8 word) :: 32 word) = 0xFF"
  by (rule bit_word_eqI) (auto simp: bit_simps dest: bit_imp_le_length)

lemma decode_loop_terminates:
  assumes br: "cinfo_err c = Some (bridge None)"
      and prog: "\<forall>s. output_scanline codec s < output_height c \<longrightarrow>
                   (\<exists>rows s'.
                      first_failure (jpeg_read_scanlines codec s (word_of_int (rec_outbuf_height c))) =
                        Inr (rows, s') \<and>
                      output_scanline codec s < output_scanline codec s')"
  shows "\<exists>stores. decode_loop codec c s d32 d8 st0 = Some (Returned (), c, stores)"
proof (induction "unat (output_height c) - unat (output_scanline codec s)"
         arbitrary: s d32 d8 st0 rule: less_induct)
  case less
  show ?case
  proof (cases "output_scanline codec s < output_height c")
    case False
    then show ?thesis by (subst decode_loop.simps) simp
  next
    case True
    with prog obtain rows s' where
      rd: "first_failure (jpeg_read_scanlines codec s (word_of_int (rec_outbuf_height c))) =
             Inr (rows, s')" and
      adv: "output_scanline codec s < output_scanline codec s'"
      by blast
    obtain st a b where cr: "copy_rows c rows d32 d8 = (st, a, b)"
      by (cases "copy_rows c rows d32 d8")
    have step: "decode_loop codec c s d32 d8 st0 = decode_loop codec c s' a b (st0 @ st)"
      using True rd cr br by (subst decode_loop.simps) (simp add: run_bridge)
    from True adv
    have "unat (output_height c) - unat (output_scanline codec s') <
          unat (output_height c) - unat (output_scanline codec s)"
      by (simp add: word_less_nat_alt)
    from less [OF this] step show ?thesis by simp
  qed
qed


section \<open>The decoder under the installed handlers\<close>

lemma decode_body_bridge:
  "cinfo_err c = Some (bridge None) \<Longrightarrow>
   decode_body codec grayscale w h errp c =
     (case first_failure (jpeg_src codec) of
        Inl b \<Rightarrow> Some (Longjmp, jumped c b, [])
      | Inr u \<Rightarrow>
     (case first_failure (jpeg_read_header codec) of
        Inl b \<Rightarrow> Some (Longjmp, jumped c b, [])
      | Inr hr \<Rightarrow>
        if \<not> header_accepted hr
        then Some (Returned (False,
                g_set_error errp OPENSLIDE_ERROR OPENSLIDE_ERROR_FAILED
                  ''Couldn't read JPEG header''), c, [])
        else
     (case first_failure (jpeg_start_decompress codec (color_space_of grayscale)) of
        Inl b \<Rightarrow> Some (Longjmp, jumped (c\<lparr>out_color_space := color_space_of grayscale\<rparr>) b, [])
      | Inr st \<Rightarrow>
          if w \<noteq> s_output_width st \<or> h \<noteq> s_output_height st
          then Some (Returned (False,
                  g_set_error errp OPENSLIDE_ERROR OPENSLIDE_ERROR_FAILED
                    (mismatch_message w h (s_output_width st) (s_output_height st))),
                  started_cinfo c grayscale st, [])
          else
     (case decode_loop codec (started_cinfo c grayscale st) (s_state st) 0 0 [] of
        None \<Rightarrow> None
      | Some (Longjmp, c6, stores) \<Rightarrow> Some (Longjmp, c6, stores)
      | Some (Foreign, c6, stores) \<Rightarrow> Some (Foreign, c6, stores)
      | Some (Returned u', c6, stores) \<Rightarrow> Some (Returned (True, errp), c6, stores)))))"
  by (simp add: decode_body_def run_bridge header_accepted_def started_cinfo_def
        color_space_of_def jumped_def Let_def split: sum.splits)

lemma decode_loop_exit:
  assumes "decode_loop codec c s d32 d8 st0 = Some (out, c', stores)"
      and "cinfo_err c = Some (bridge None)"
  shows "(\<exists>rows. stores = st0 @ fst (copy_rows c rows d32 d8) \<and> (\<forall>r\<in>set rows. delivered codec r)) \<and>
         (out = Returned () \<and> c' = c \<or> (\<exists>b. out = Longjmp \<and> c' = jumped c b))"
  using decode_loop_bridge [OF assms(1)] assms(2) by (simp add: jumped_def)

lemma decode_body_exit:
  assumes body: "decode_body codec grayscale w h errp c = Some (out, c', stores)"
      and br: "cinfo_err c = Some (bridge None)"
  shows "out \<noteq> Foreign \<and>
         (out = Longjmp \<longrightarrow> (\<exists>b. cinfo_err c' = Some (bridge (Some (library_error b))))) \<and>
         (\<forall>res. out = Returned res \<longrightarrow> cinfo_err c' = Some (bridge None)) \<and>
         (stores = [] \<or>
          (\<exists>st rows. first_failure (jpeg_start_decompress codec (color_space_of grayscale)) = Inr st \<and>
             w = s_output_width st \<and> h = s_output_height st \<and>
             stores = fst (copy_rows (started_cinfo c grayscale st) rows 0 0) \<and>
             (\<forall>r\<in>set rows. delivered codec r)))"
proof (cases "first_failure (jpeg_src codec)")
  case (Inl b)
  with body br show ?thesis by (auto simp: decode_body_bridge jumped_def)
next
  case src: (Inr u)
  show ?thesis
  proof (cases "first_failure (jpeg_read_header codec)")
    case (Inl b)
    with body br src show ?thesis by (auto simp: decode_body_bridge jumped_def)
  next
    case hdr: (Inr hr)
    show ?thesis
    proof (cases "header_accepted hr")
      case False
      with body br src hdr show ?thesis by (auto simp: decode_body_bridge)
    next
      case acc: True
      show ?thesis
      proof (cases "first_failure (jpeg_start_decompress codec (color_space_of grayscale))")
        case (Inl b)
        with body br src hdr acc show ?thesis by (auto simp: decode_body_bridge jumped_def)
      next
        case start: (Inr st)
        show ?thesis
        proof (cases "w \<noteq> s_output_width st \<or> h \<noteq> s_output_height st")
          case True
          with body br src hdr acc start show ?thesis
            by (auto simp: decode_body_bridge started_cinfo_def)
        next
          case dims: False
          have br5: "cinfo_err (started_cinfo c grayscale st) = Some (bridge None)"
            using br by (simp add: started_cinfo_def)
          from body br src hdr acc start dims
          obtain out' where
            loop: "decode_loop codec (started_cinfo c grayscale st) (s_state st) 0 0 [] =
                     Some (out', c', stores)"
            by (auto simp: decode_body_bridge split: option.splits outcome.splits)
          from body br src hdr acc start dims loop
          have out: "out' = Longjmp \<longrightarrow> out = Longjmp" "out' = Returned () \<longrightarrow> out = Returned (True, errp)"
            by (auto simp: decode_body_bridge)
          from decode_loop_exit [OF loop br5] out dims start br5 show ?thesis
            by (auto simp: jumped_def)
        qed
      qed
    qed
  qed
qed

lemma decode_done_bridge:
  "cinfo_err c = Some (bridge None) \<Longrightarrow>
   decode_done result stores errp c (hp\<lparr>live_cinfo := Suc (live_cinfo hp), live_jerr := Suc (live_jerr hp)\<rparr>) =
     Inr \<lparr>d_ok = result, d_stores = stores, d_err = errp, d_heap = hp\<rparr>"
  by (simp add: decode_done_def destroy_bridge)

lemma jpeg_decode_returns:
  assumes dec: "jpeg_decode codec grayscale w h errp hp = Some x"
  shows "\<exists>r. x = Inr r \<and> d_heap r = hp \<and>
          (d_stores r = [] \<or>
           (\<exists>st rows. first_failure (jpeg_start_decompress codec (color_space_of grayscale)) = Inr st \<and>
              w = s_output_width st \<and> h = s_output_height st \<and>
              d_stores r = fst (copy_rows (started_cinfo fresh_cinfo grayscale st) rows 0 0) \<and>
              (\<forall>r\<in>set rows. delivered codec r)))"
proof (cases "first_failure (jpeg_create_decompress codec)")
  case (Inl b)
  with dec show ?thesis
    by (auto simp: jpeg_decode_def openslide_jpeg_create_decompress_def decode_try_def
          init_bridge propagate_bridge decode_done_bridge)
next
  case (Inr u)
  let ?c0 = "fresh_cinfo\<lparr>cinfo_err := Some (bridge None)\<rparr>"
  have br: "cinfo_err ?c0 = Some (bridge None)" by simp
  from dec Inr obtain out c1 stores where
    body: "decode_body codec grayscale w h errp ?c0 = Some (out, c1, stores)"
    by (auto simp: jpeg_decode_def openslide_jpeg_create_decompress_def decode_try_def
          init_bridge fresh_cinfo_def split: option.splits)
  note ex = decode_body_exit [OF body br]
  have cr: "copy_rows (started_cinfo ?c0 grayscale st) rows 0 0 =
            copy_rows (started_cinfo fresh_cinfo grayscale st) rows 0 0" for st :: "'a started" and rows
    by (rule copy_rows_fields) (simp_all add: started_cinfo_def)
  show ?thesis
  proof (cases out)
    case Foreign
    with ex show ?thesis by simp
  next
    case Longjmp
    with ex obtain b where c1: "cinfo_err c1 = Some (bridge (Some (library_error b)))" by blast
    from dec Inr body Longjmp c1
    have "x = Inr \<lparr>d_ok = False, d_stores = stores,
                   d_err = g_propagate_error errp (Some (library_error b)), d_heap = hp\<rparr>"
      by (simp add: jpeg_decode_def openslide_jpeg_create_decompress_def decode_try_def
            init_bridge fresh_cinfo_def propagate_bridge decode_done_bridge)
    with ex cr show ?thesis by auto
  next
    case (Returned res)
    with ex have c1: "cinfo_err c1 = Some (bridge None)" by blast
    obtain result errp' where res: "res = (result, errp')" by (cases res)
    from dec Inr body Returned c1 res
    have "x = Inr \<lparr>d_ok = result, d_stores = stores, d_err = errp', d_heap = hp\<rparr>"
      by (simp add: jpeg_decode_def openslide_jpeg_create_decompress_def decode_try_def
            init_bridge fresh_cinfo_def decode_done_bridge)
    with ex cr show ?thesis by auto
  qed
qed


section \<open>Evaluating the example sources\<close>

lemma red_decode:
  "jpeg_decode (solid_codec 2 2 red_row) False 2 2 None hp0 =
     Some (Inr \<lparr>d_ok = True,
                d_stores = [Store32 0 0xFFFF0000, Store32 1 0xFFFF0000,
                            Store32 2 0xFFFF0000, Store32 3 0xFFFF0000],
                d_err = None, d_heap = hp0\<rparr>)"
  by code_simp

lemma truncated_decode:
  "jpeg_decode truncated_codec False 2 2 None hp0 =
     Some (Inr \<lparr>d_ok = False, d_stores = [Store32 0 0xFFFF0000, Store32 1 0xFFFF0000],
                d_err = Some (library_error ''Premature end of JPEG file''), d_heap = hp0\<rparr>)"
  by code_simp

lemma solid_valid: "valid_source (solid_codec 2 2 red_row)"
proof -
  have adv: "s < s + 1" if "s < 2" for s :: "32 word"
  proof -
    from that have "unat s < 2" by (simp add: word_less_nat_alt)
    then have "unat (s + 1) = unat s + 1" by (simp add: unat_word_ariths)
    then show ?thesis by (simp add: word_less_nat_alt)
  qed
  show ?thesis
    unfolding valid_source_def
    by (simp add: solid_codec_def adv)
qed

lemma slide_probe_4096:
  "openslide_jpeg_read_dimensions slide_env ''slide.tif'' 4096 0 0 None hp0 =
     Inr (\<lparr>p_ok = True, p_w = 64, p_h = 64, p_err = None, p_heap = hp0\<rparr>,
          [Fopen ''slide.tif'', Fseeko 3 4096, Fclose 3])"
  by code_simp

lemma slide_probe_0:
  "openslide_jpeg_read_dimensions slide_env ''slide.tif'' 0 0 0 None hp0 =
     Inr (\<lparr>p_ok = False, p_w = 0, p_h = 0,
           p_err = Some (library_error ''Not a JPEG file: starts with 0x49 0x49''),
           p_heap = hp0\<rparr>,
          [Fopen ''slide.tif'', Fclose 3])"
  by code_simp

lemma read_dimensions_returns:
  "\<exists>r fops. openslide_jpeg_read_dimensions env fname off w h errp hp = Inr (r, fops)"
  by (auto simp: openslide_jpeg_read_dimensions_def jpeg_get_dimensions_script
        split: prod.splits option.splits)


section \<open>The claims\<close>

subsection \<open>The pixel decoder\<close>

text \<open>
  Claim C1. A decode in RGB mode (\<open>grayscale\<close> false) on a source for which the
  codec, asked for \<open>JCS_RGB\<close>, does not report a single output component, makes only
  32-bit stores, and they are these: for the rows \<open>rows\<close> that \<open>jpeg_read_scanlines\<close>
  delivered, in order, pixel \<open>i\<close> of row \<open>k\<close> is stored at element \<open>k * w + i\<close> as
  \<open>0xFF000000 OR (red << 16) OR (green << 8) OR blue\<close>, where red, green and blue
  are samples \<open>3i\<close>, \<open>3i + 1\<close> and \<open>3i + 2\<close> of the row. In particular the top
  byte of every stored value is \<open>0xFF\<close>. This holds for every call that returns, also
  one that fails after some rows were copied.
\<close>

theorem decode_rgb_pixels:
  assumes dec: "jpeg_decode codec False w h errp hp = Some (Inr d)"
      and start: "first_failure (jpeg_start_decompress codec JCS_RGB) = Inr st"
      and rgb: "s_output_components st \<noteq> 1"
  shows "\<exists>rows.
           (\<forall>r\<in>set rows. delivered codec r) \<and>
           d_stores d =
             concat (map (\<lambda>k. map (\<lambda>i. Store32 (k * unat w + i)
                                      (0xFF000000 OR push_bit 16 (ucast ((rows ! k) (i * 3)))
                                         OR push_bit 8 (ucast ((rows ! k) (i * 3 + 1)))
                                         OR ucast ((rows ! k) (i * 3 + 2))))
                               [0..<nat (sint w)])
                         [0..<length rows]) \<and>
           (\<forall>s\<in>set (d_stores d). \<exists>k v. s = Store32 k v \<and> drop_bit 24 v = 0xFF)"
proof -
  define px :: "row list \<Rightarrow> nat \<Rightarrow> nat \<Rightarrow> 32 word" where
    "px = (\<lambda>rows k i. 0xFF000000 OR push_bit 16 (ucast ((rows ! k) (i * 3)))
                 OR push_bit 8 (ucast ((rows ! k) (i * 3 + 1)))
                 OR ucast ((rows ! k) (i * 3 + 2)))"
  define every :: "row list \<Rightarrow> store list" where
    "every = (\<lambda>rows. concat (map (\<lambda>k. map (\<lambda>i. Store32 (k * unat w + i) (px rows k i))
                               [0..<nat (sint w)]) [0..<length rows]))"
  have px_top: "drop_bit 24 (px rows k i) = 0xFF" for rows k i
    unfolding px_def by (rule top_byte)
  have tops: "\<forall>s\<in>set (every rows). \<exists>k v. s = Store32 k v \<and> drop_bit 24 v = 0xFF" for rows
    by (auto simp: every_def px_top)
  from jpeg_decode_returns [OF dec]
  consider (none) "d_stores d = []"
    | (some) st' rows where
        "first_failure (jpeg_start_decompress codec (color_space_of False)) = Inr st'"
        "w = s_output_width st'"
        "d_stores d = fst (copy_rows (started_cinfo fresh_cinfo False st') rows 0 0)"
        "\<forall>r\<in>set rows. delivered codec r"
    by auto
  then have "\<exists>rows. (\<forall>r\<in>set rows. delivered codec r) \<and> d_stores d = every rows"
  proof cases
    case none
    then have "d_stores d = every []" by (simp add: every_def)
    then show ?thesis by (intro exI [of _ "[]"]) simp
  next
    case some
    from some(1) start have st': "st' = st" by (simp add: color_space_of_def)
    have comp: "output_components (started_cinfo fresh_cinfo False st) \<noteq> 1"
      using rgb by (simp add: started_cinfo_def)
    have wd: "output_width (started_cinfo fresh_cinfo False st) = w"
      using some(2) st' by (simp add: started_cinfo_def)
    have "d_stores d = every rows"
      using some(3) st' by (simp add: copy_rows_rgb [OF comp] wd rgb_pixel_def every_def px_def)
    with some(4) show ?thesis by blast
  qed
  then obtain rows where
    rows: "\<forall>r\<in>set rows. delivered codec r" and eq: "d_stores d = every rows"
    by blast
  from tops [of rows] eq
  have "\<forall>s\<in>set (d_stores d). \<exists>k v. s = Store32 k v \<and> drop_bit 24 v = 0xFF" by simp
  with rows eq show ?thesis unfolding every_def px_def by blast
qed

text \<open>
  C1 on the 2 by 2 solid red image: four stores of \<open>0xFFFF0000\<close>.
\<close>

theorem decode_rgb_pixels_witness:
  "jpeg_decode (solid_codec 2 2 red_row) False 2 2 None hp0 =
     Some (Inr \<lparr>d_ok = True,
                d_stores = [Store32 0 0xFFFF0000, Store32 1 0xFFFF0000,
                            Store32 2 0xFFFF0000, Store32 3 0xFFFF0000],
                d_err = None, d_heap = hp0\<rparr>) \<and>
   (\<exists>rows :: row list.
      [Store32 0 0xFFFF0000, Store32 1 0xFFFF0000, Store32 2 0xFFFF0000, Store32 3 0xFFFF0000] =
        concat (map (\<lambda>k. map (\<lambda>i. Store32 (k * 2 + i)
                                 (0xFF000000 OR push_bit 16 (ucast ((rows ! k) (i * 3)))
                                    OR push_bit 8 (ucast ((rows ! k) (i * 3 + 1)))
                                    OR ucast ((rows ! k) (i * 3 + 2))))
                          [0..<2])
                    [0..<length rows]))"
proof -
  have start: "first_failure (jpeg_start_decompress (solid_codec 2 2 red_row) JCS_RGB) =
      Inr \<lparr>s_output_width = 2, s_output_height = 2, s_output_components = 3,
           s_rec_outbuf_height = 1, s_state = 0\<rparr>"
    by (simp add: solid_codec_def)
  have rgb: "s_output_components \<lparr>s_output_width = 2, s_output_height = 2,
      s_output_components = 3, s_rec_outbuf_height = 1, s_state = (0 :: 32 word)\<rparr> \<noteq> 1"
    by simp
  from decode_rgb_pixels [OF red_decode start rgb]
  obtain rows :: "row list" where
    "d_stores \<lparr>d_ok = True,
                d_stores = [Store32 0 0xFFFF0000, Store32 1 0xFFFF0000,
                            Store32 2 0xFFFF0000, Store32 3 0xFFFF0000],
                d_err = None, d_heap = hp0\<rparr> =
       concat (map (\<lambda>k. map (\<lambda>i. Store32 (k * unat (2 :: 32 word) + i)
                                 (0xFF000000 OR push_bit 16 (ucast ((rows ! k) (i * 3)))
                                    OR push_bit 8 (ucast ((rows ! k) (i * 3 + 1)))
                                    OR ucast ((rows ! k) (i * 3 + 2))))
                          [0..<nat (sint (2 :: 32 word))])
                    [0..<length rows])"
    by blast
  then have "[Store32 0 0xFFFF0000, Store32 1 0xFFFF0000, Store32 2 0xFFFF0000, Store32 3 0xFFFF0000] =
        concat (map (\<lambda>k. map (\<lambda>i. Store32 (k * 2 + i)
                                 (0xFF000000 OR push_bit 16 (ucast ((rows ! k) (i * 3)))
                                    OR push_bit 8 (ucast ((rows ! k) (i * 3 + 1)))
                                    OR ucast ((rows ! k) (i * 3 + 2))))
                          [0..<2])
                    [0..<length rows])"
    by simp
  with red_decode show ?thesis by blast
qed

text \<open>
  Claim C2. When the codec has started decompressing and the output width or height it
  reports differs from the expected \<open>w\<close> or \<open>h\<close>, \<open>jpeg_decode\<close> (which serves the
  file and the memory entry points alike) returns false, the caller's empty error slot
  receives the message built from the format
  \<open>"Dimensional mismatch reading JPEG, expected %dx%d, got %dx%d"\<close> with the expected
  pair first and the actual pair second, and no store into the destination is made.
\<close>

theorem decode_dimension_mismatch:
  assumes "first_failure (jpeg_create_decompress codec) = Inr ()"
      and "first_failure (jpeg_src codec) = Inr ()"
      and "first_failure (jpeg_read_header codec) = Inr header_result"
      and "header_accepted header_result"
      and "first_failure (jpeg_start_decompress codec (color_space_of grayscale)) = Inr st"
      and "w \<noteq> s_output_width st \<or> h \<noteq> s_output_height st"
  shows "jpeg_decode codec grayscale w h None hp =
           Some (Inr \<lparr>d_ok = False, d_stores = [],
                      d_err = Some \<lparr>domain = OPENSLIDE_ERROR, code = OPENSLIDE_ERROR_FAILED,
                                    message =
                                      ''Dimensional mismatch reading JPEG, expected '' @
                                      printf_d (sint w) @ ''x'' @ printf_d (sint h) @ '', got '' @
                                      printf_d (sint (s_output_width st)) @ ''x'' @
                                      printf_d (sint (s_output_height st))\<rparr>,
                      d_heap = hp\<rparr>)"
  using assms
  by (simp add: jpeg_decode_def openslide_jpeg_create_decompress_def decode_try_def
        init_bridge decode_body_bridge g_set_error_def mismatch_message_def
        started_cinfo_def decode_done_bridge)

text \<open>
  C2 on a 64 by 64 tile decoded with expected dimensions 32 by 32.
\<close>

theorem decode_dimension_mismatch_witness:
  "jpeg_decode (solid_codec 64 64 red_row) False 32 32 None hp0 =
     Some (Inr \<lparr>d_ok = False, d_stores = [],
                d_err = Some \<lparr>domain = OPENSLIDE_ERROR, code = OPENSLIDE_ERROR_FAILED,
                              message =
                                ''Dimensional mismatch reading JPEG, expected 32x32, got 64x64''\<rparr>,
                d_heap = hp0\<rparr>)"
proof -
  have k: "first_failure (jpeg_create_decompress (solid_codec 64 64 red_row)) = Inr ()"
    "first_failure (jpeg_src (solid_codec 64 64 red_row)) = Inr ()"
    "first_failure (jpeg_read_header (solid_codec 64 64 red_row)) = Inr JPEG_HEADER_OK"
    "header_accepted JPEG_HEADER_OK"
    "first_failure (jpeg_start_decompress (solid_codec 64 64 red_row) (color_space_of False)) =
       Inr \<lparr>s_output_width = 64, s_output_height = 64, s_output_components = 3,
            s_rec_outbuf_height = 1, s_state = 0\<rparr>"
    by (simp_all add: solid_codec_def header_accepted_def color_space_of_def)
  have m: "(32 :: 32 word) \<noteq> s_output_width \<lparr>s_output_width = 64, s_output_height = 64,
             s_output_components = 3, s_rec_outbuf_height = 1, s_state = (0 :: 32 word)\<rparr> \<or>
           (32 :: 32 word) \<noteq> s_output_height \<lparr>s_output_width = 64, s_output_height = 64,
             s_output_components = 3, s_rec_outbuf_height = 1, s_state = (0 :: 32 word)\<rparr>"
    by simp
  have p: "printf_d 32 = ''32''" "printf_d 64 = ''64''"
    by (simp_all add: printf_d_def dec_nat.simps digit_char_def)
  from decode_dimension_mismatch [OF k m, of hp0] p show ?thesis by simp
qed

text \<open>
  Claim C3. On a source that the codec reads without complaint (\<open>valid_source\<close>), if
  the probe succeeds, a decode of the same source, in either colour mode, called with
  exactly the probed width and height returns, succeeds and leaves the error slot empty:
  the probe takes the dimensions from \<open>jpeg_calc_output_dimensions\<close> and the decoder
  compares against those \<open>jpeg_start_decompress\<close> stores, and on such a source these
  agree.
\<close>

theorem probe_then_decode:
  assumes valid: "valid_source codec"
      and probe: "jpeg_get_dimensions codec w0 h0 None hp = Inr r"
      and ok: "p_ok r"
  shows "\<exists>d. jpeg_decode codec grayscale (p_w r) (p_h r) None hp' = Some (Inr d) \<and>
             d_ok d \<and> d_err d = None"
proof -
  from valid obtain ow oh st where
    cr: "first_failure (jpeg_create_decompress codec) = Inr ()" and
    src: "first_failure (jpeg_src codec) = Inr ()" and
    hdr: "first_failure (jpeg_read_header codec) = Inr JPEG_HEADER_OK" and
    calc: "first_failure (jpeg_calc_output_dimensions codec) = Inr (ow, oh)" and
    start: "first_failure (jpeg_start_decompress codec (color_space_of grayscale)) = Inr st" and
    dims: "s_output_width st = ow" "s_output_height st = oh" and
    prog: "\<forall>s. output_scanline codec s < oh \<longrightarrow>
              (\<exists>rows s'.
                 first_failure (jpeg_read_scanlines codec s (word_of_int (s_rec_outbuf_height st))) =
                   Inr (rows, s') \<and>
                 output_scanline codec s < output_scanline codec s')"
    unfolding valid_source_def by blast
  from probe cr src hdr calc have r: "p_w r = ow" "p_h r = oh"
    by (auto simp: jpeg_get_dimensions_script probe_script_def header_accepted_def)
  let ?c0 = "fresh_cinfo\<lparr>cinfo_err := Some (bridge None)\<rparr>"
  let ?c5 = "started_cinfo ?c0 grayscale st"
  have br5: "cinfo_err ?c5 = Some (bridge None)" by (simp add: started_cinfo_def)
  have prog5: "\<forall>s. output_scanline codec s < output_height ?c5 \<longrightarrow>
                   (\<exists>rows s'.
                      first_failure (jpeg_read_scanlines codec s (word_of_int (rec_outbuf_height ?c5))) =
                        Inr (rows, s') \<and>
                      output_scanline codec s < output_scanline codec s')"
    using prog dims by (simp add: started_cinfo_def)
  from decode_loop_terminates [OF br5 prog5]
  obtain stores where
    loop: "decode_loop codec ?c5 (s_state st) 0 0 [] = Some (Returned (), ?c5, stores)"
    by blast
  have "jpeg_decode codec grayscale (p_w r) (p_h r) None hp' =
          Some (Inr \<lparr>d_ok = True, d_stores = stores, d_err = None, d_heap = hp'\<rparr>)"
    using cr src hdr start dims r loop br5
    by (simp add: jpeg_decode_def openslide_jpeg_create_decompress_def decode_try_def
          init_bridge decode_body_bridge header_accepted_def fresh_cinfo_def
          decode_done_bridge)
  then show ?thesis by simp
qed

text \<open>
  C3 on the 2 by 2 solid red image, decoded in grayscale mode.
\<close>

theorem probe_then_decode_witness:
  "valid_source (solid_codec 2 2 red_row) \<and>
   jpeg_get_dimensions (solid_codec 2 2 red_row) 0 0 None hp0 =
     Inr \<lparr>p_ok = True, p_w = 2, p_h = 2, p_err = None, p_heap = hp0\<rparr> \<and>
   (\<exists>d. jpeg_decode (solid_codec 2 2 red_row) True 2 2 None hp0 = Some (Inr d) \<and>
        d_ok d \<and> d_err d = None)"
proof -
  have probe: "jpeg_get_dimensions (solid_codec 2 2 red_row) 0 0 None hp0 =
     Inr \<lparr>p_ok = True, p_w = 2, p_h = 2, p_err = None, p_heap = hp0\<rparr>"
    by code_simp
  from probe_then_decode [OF solid_valid probe, of True hp0] solid_valid probe
  show ?thesis by simp
qed

subsection \<open>The header check\<close>

text \<open>
  Claim C4. Once the session is set up and \<open>jpeg_read_header\<close> has returned
  \<open>header_result\<close>: for every result other than \<open>JPEG_HEADER_OK\<close> and
  \<open>JPEG_HEADER_TABLES_ONLY\<close>, the probe and the decoder both fail with the message
  "Couldn't read JPEG header", whatever the later entry points would do, with \<open>*w\<close>,
  \<open>*h\<close> and the destination untouched. For the two accepted results they go on: the
  probe's result is then decided by \<open>jpeg_calc_output_dimensions\<close>, and the decoder
  reports the failure of \<open>jpeg_start_decompress\<close> when that fails.
\<close>

theorem header_outcomes:
  assumes "first_failure (jpeg_create_decompress codec) = Inr ()"
      and "first_failure (jpeg_src codec) = Inr ()"
      and "first_failure (jpeg_read_header codec) = Inr header_result"
  shows "(header_result \<noteq> JPEG_HEADER_OK \<and> header_result \<noteq> JPEG_HEADER_TABLES_ONLY \<longrightarrow>
            jpeg_get_dimensions codec w0 h0 None hp =
              Inr \<lparr>p_ok = False, p_w = w0, p_h = h0,
                   p_err = Some \<lparr>domain = OPENSLIDE_ERROR, code = OPENSLIDE_ERROR_FAILED,
                                 message = ''Couldn't read JPEG header''\<rparr>,
                   p_heap = hp\<rparr> \<and>
            jpeg_decode codec grayscale w h None hp =
              Some (Inr \<lparr>d_ok = False, d_stores = [],
                         d_err = Some \<lparr>domain = OPENSLIDE_ERROR, code = OPENSLIDE_ERROR_FAILED,
                                       message = ''Couldn't read JPEG header''\<rparr>,
                         d_heap = hp\<rparr>)) \<and>
         (header_result = JPEG_HEADER_OK \<or> header_result = JPEG_HEADER_TABLES_ONLY \<longrightarrow>
            jpeg_get_dimensions codec w0 h0 None hp =
              Inr (case first_failure (jpeg_calc_output_dimensions codec) of
                     Inl b \<Rightarrow> \<lparr>p_ok = False, p_w = w0, p_h = h0,
                               p_err = Some (library_error b), p_heap = hp\<rparr>
                   | Inr (ow, oh) \<Rightarrow> \<lparr>p_ok = True, p_w = ow, p_h = oh,
                                      p_err = None, p_heap = hp\<rparr>) \<and>
            (\<forall>b. first_failure (jpeg_start_decompress codec (color_space_of grayscale)) = Inl b \<longrightarrow>
                 jpeg_decode codec grayscale w h None hp =
                   Some (Inr \<lparr>d_ok = False, d_stores = [], d_err = Some (library_error b),
                              d_heap = hp\<rparr>)))"
proof (intro conjI impI allI)
  assume "header_result \<noteq> JPEG_HEADER_OK \<and> header_result \<noteq> JPEG_HEADER_TABLES_ONLY"
  with assms show "jpeg_get_dimensions codec w0 h0 None hp =
              Inr \<lparr>p_ok = False, p_w = w0, p_h = h0,
                   p_err = Some \<lparr>domain = OPENSLIDE_ERROR, code = OPENSLIDE_ERROR_FAILED,
                                 message = ''Couldn't read JPEG header''\<rparr>,
                   p_heap = hp\<rparr>"
    by (simp add: jpeg_get_dimensions_script probe_script_def header_accepted_def
          probe_failed_def g_set_error_def)
next
  assume "header_result \<noteq> JPEG_HEADER_OK \<and> header_result \<noteq> JPEG_HEADER_TABLES_ONLY"
  with assms show "jpeg_decode codec grayscale w h None hp =
              Some (Inr \<lparr>d_ok = False, d_stores = [],
                         d_err = Some \<lparr>domain = OPENSLIDE_ERROR, code = OPENSLIDE_ERROR_FAILED,
                                       message = ''Couldn't read JPEG header''\<rparr>,
                         d_heap = hp\<rparr>)"
    by (simp add: jpeg_decode_def openslide_jpeg_create_decompress_def decode_try_def
          init_bridge decode_body_bridge header_accepted_def g_set_error_def
          decode_done_bridge)
next
  assume "header_result = JPEG_HEADER_OK \<or> header_result = JPEG_HEADER_TABLES_ONLY"
  with assms show "jpeg_get_dimensions codec w0 h0 None hp =
              Inr (case first_failure (jpeg_calc_output_dimensions codec) of
                     Inl b \<Rightarrow> \<lparr>p_ok = False, p_w = w0, p_h = h0,
                               p_err = Some (library_error b), p_heap = hp\<rparr>
                   | Inr (ow, oh) \<Rightarrow> \<lparr>p_ok = True, p_w = ow, p_h = oh,
                                      p_err = None, p_heap = hp\<rparr>)"
    by (simp add: jpeg_get_dimensions_script probe_script_def header_accepted_def
          probe_failed_def g_propagate_error_def split: sum.splits)
next
  fix b
  assume "header_result = JPEG_HEADER_OK \<or> header_result = JPEG_HEADER_TABLES_ONLY"
     and "first_failure (jpeg_start_decompress codec (color_space_of grayscale)) = Inl b"
  with assms show "jpeg_decode codec grayscale w h None hp =
                   Some (Inr \<lparr>d_ok = False, d_stores = [], d_err = Some (library_error b),
                              d_heap = hp\<rparr>)"
    by (simp add: jpeg_decode_def openslide_jpeg_create_decompress_def decode_try_def
          init_bridge decode_body_bridge header_accepted_def jumped_def propagate_bridge
          g_propagate_error_def decode_done_bridge)
qed

text \<open>
  C4 on a stream whose header read suspends (rejected by both operations), on a
  tables-only stream (accepted: the error is the one of the next entry point) and on a
  64 by 64 tile (accepted: the probe succeeds).
\<close>

theorem header_outcomes_witness:
  "jpeg_get_dimensions suspended_codec 7 9 None hp0 =
     Inr \<lparr>p_ok = False, p_w = 7, p_h = 9,
          p_err = Some \<lparr>domain = OPENSLIDE_ERROR, code = OPENSLIDE_ERROR_FAILED,
                        message = ''Couldn't read JPEG header''\<rparr>,
          p_heap = hp0\<rparr> \<and>
   jpeg_decode suspended_codec False 2 2 None hp0 =
     Some (Inr \<lparr>d_ok = False, d_stores = [],
                d_err = Some \<lparr>domain = OPENSLIDE_ERROR, code = OPENSLIDE_ERROR_FAILED,
                              message = ''Couldn't read JPEG header''\<rparr>,
                d_heap = hp0\<rparr>) \<and>
   jpeg_get_dimensions tables_only_codec 7 9 None hp0 =
     Inr \<lparr>p_ok = False, p_w = 7, p_h = 9,
          p_err = Some (library_error ''Improper call to JPEG library in state 200''),
          p_heap = hp0\<rparr> \<and>
   jpeg_decode tables_only_codec False 2 2 None hp0 =
     Some (Inr \<lparr>d_ok = False, d_stores = [],
                d_err = Some (library_error ''Improper call to JPEG library in state 200''),
                d_heap = hp0\<rparr>) \<and>
   jpeg_get_dimensions (solid_codec 64 64 red_row) 7 9 None hp0 =
     Inr \<lparr>p_ok = True, p_w = 64, p_h = 64, p_err = None, p_heap = hp0\<rparr>"
proof -
  have s: "first_failure (jpeg_create_decompress suspended_codec) = Inr ()"
    "first_failure (jpeg_src suspended_codec) = Inr ()"
    "first_failure (jpeg_read_header suspended_codec) = Inr JPEG_SUSPENDED"
    "JPEG_SUSPENDED \<noteq> JPEG_HEADER_OK \<and> JPEG_SUSPENDED \<noteq> JPEG_HEADER_TABLES_ONLY"
    by (simp_all add: suspended_codec_def solid_codec_def JPEG_SUSPENDED_def JPEG_HEADER_OK_def
          JPEG_HEADER_TABLES_ONLY_def)
  have t: "first_failure (jpeg_create_decompress tables_only_codec) = Inr ()"
    "first_failure (jpeg_src tables_only_codec) = Inr ()"
    "first_failure (jpeg_read_header tables_only_codec) = Inr JPEG_HEADER_TABLES_ONLY"
    by (simp_all add: tables_only_codec_def solid_codec_def)
  have t': "first_failure (jpeg_calc_output_dimensions tables_only_codec) =
              Inl ''Improper call to JPEG library in state 200''"
    "first_failure (jpeg_start_decompress tables_only_codec (color_space_of False)) =
              Inl ''Improper call to JPEG library in state 200''"
    by (simp_all add: tables_only_codec_def solid_codec_def)
  have k: "first_failure (jpeg_create_decompress (solid_codec 64 64 red_row)) = Inr ()"
    "first_failure (jpeg_src (solid_codec 64 64 red_row)) = Inr ()"
    "first_failure (jpeg_read_header (solid_codec 64 64 red_row)) = Inr JPEG_HEADER_OK"
    by (simp_all add: solid_codec_def)
  have k': "first_failure (jpeg_calc_output_dimensions (solid_codec 64 64 red_row)) = Inr (64, 64)"
    by (simp add: solid_codec_def)
  from header_outcomes [OF s(1-3), of 7 9 hp0 False 2 2] s(4)
       header_outcomes [OF t, of 7 9 hp0 False 2 2] t'
       header_outcomes [OF k, of 7 9 hp0 False 2 2] k'
  show ?thesis by simp
qed

subsection \<open>The error bridge\<close>

text \<open>
  Claim C5. With the three handlers of this file installed, a message of negative level
  (a warning) that the codec emits is handled by \<open>my_emit_message\<close> exactly as
  \<open>my_error_exit\<close> handles a fatal error: the entry point that emits it ends as the one
  that calls \<open>error_exit\<close> with the same message does, in a \<open>longjmp\<close> with the
  message captured in the pending-error slot, and whatever the entry point would have
  done next (\<open>k\<close>) is never run. A message of level zero or more is ignored: the
  handler returns with nothing changed and the entry point goes on.
\<close>

theorem warning_is_fatal:
  assumes "cinfo_err cinfo = Some jerr"
      and "error_exit jerr = Openslide_my"
      and "output_message jerr = Openslide_my"
      and "emit_message jerr = Openslide_my"
  shows "(msg_level < 0 \<longrightarrow>
            my_emit_message msg_level buffer cinfo = my_error_exit buffer cinfo \<and>
            run (Emit_message msg_level buffer k) cinfo = run (Error_exit buffer) cinfo \<and>
            run (Emit_message msg_level buffer k) cinfo =
              (Longjmp,
               cinfo\<lparr>cinfo_err := Some (jerr\<lparr>err :=
                 g_set_error (err jerr) OPENSLIDE_ERROR OPENSLIDE_ERROR_FAILED buffer\<rparr>)\<rparr>)) \<and>
         (0 \<le> msg_level \<longrightarrow>
            my_emit_message msg_level buffer cinfo = (Returned (), cinfo) \<and>
            run (Emit_message msg_level buffer k) cinfo = run k cinfo)"
  using assms
  by (simp add: call_emit_message_def my_emit_message_def call_error_exit_def
        my_error_exit_def call_output_message_def my_output_message_def)

text \<open>
  C5 at a session as \<open>_openslide_jpeg_init_decompress\<close> leaves it: a warning of level
  \<open>-1\<close> ends the call in a \<open>longjmp\<close> with the message pending; a trace message of
  level \<open>1\<close> lets the call return its value.
\<close>

theorem warning_is_fatal_witness:
  "run (Emit_message (- 1) ''Premature end of JPEG file'' (Return (5 :: int)))
       (fresh_cinfo\<lparr>cinfo_err := Some (bridge None)\<rparr>) =
     (Longjmp,
      fresh_cinfo\<lparr>cinfo_err := Some (bridge (Some (library_error ''Premature end of JPEG file'')))\<rparr>) \<and>
   run (Emit_message 1 ''Start of Image'' (Return (5 :: int)))
       (fresh_cinfo\<lparr>cinfo_err := Some (bridge None)\<rparr>) =
     (Returned 5, fresh_cinfo\<lparr>cinfo_err := Some (bridge None)\<rparr>)"
proof -
  let ?c = "fresh_cinfo\<lparr>cinfo_err := Some (bridge None)\<rparr>"
  have h: "cinfo_err ?c = Some (bridge None)" "error_exit (bridge None) = Openslide_my"
    "output_message (bridge None) = Openslide_my" "emit_message (bridge None) = Openslide_my"
    by (simp_all add: bridge_def)
  have neg: "(- 1 :: int) < 0" and pos: "(0 :: int) \<le> 1" by simp_all
  have "run (Emit_message (- 1) ''Premature end of JPEG file'' (Return (5 :: int))) ?c =
          (Longjmp, ?c\<lparr>cinfo_err := Some ((bridge None)\<lparr>err :=
             g_set_error (err (bridge None)) OPENSLIDE_ERROR OPENSLIDE_ERROR_FAILED
               ''Premature end of JPEG file''\<rparr>)\<rparr>)"
    using warning_is_fatal [OF h, of "- 1" "''Premature end of JPEG file''" "Return (5 :: int)"] neg
    by blast
  moreover
  have "run (Emit_message 1 ''Start of Image'' (Return (5 :: int))) ?c = run (Return 5) ?c"
    using warning_is_fatal [OF h, of 1 "''Start of Image''" "Return (5 :: int)"] pos
    by blast
  ultimately show ?thesis
    by (simp add: bridge_def library_error_def g_set_error_def del: run.simps(2))
qed

text \<open>
  Claim C6. The pending error is one slot. \<open>_openslide_jpeg_propagate_error\<close> first
  asserts that the installed \<open>error_exit\<close> is \<open>my_error_exit\<close> and stops the process
  otherwise. When the assertion holds, the pending error moves into the caller's empty
  slot and the stored one is reset to empty, so that a second propagation moves nothing:
  it leaves the caller's slot as it finds it. While an error is pending, a further
  message captured by \<open>my_output_message\<close> does not replace it.
\<close>

theorem propagate_error_once:
  assumes "cinfo_err cinfo = Some jerr"
  shows "(error_exit jerr \<noteq> Openslide_my \<longrightarrow>
            openslide_jpeg_propagate_error errp cinfo = Inl Assertion_failed) \<and>
         (error_exit jerr = Openslide_my \<longrightarrow>
            (\<exists>cinfo'. openslide_jpeg_propagate_error None cinfo = Inr (err jerr, cinfo') \<and>
                cinfo_err cinfo' = Some (jerr\<lparr>err := None\<rparr>) \<and>
                openslide_jpeg_propagate_error errp cinfo' = Inr (errp, cinfo'))) \<and>
         (output_message jerr = Openslide_my \<and> err jerr \<noteq> None \<longrightarrow>
            my_output_message buffer cinfo = (Returned (), cinfo))"
  using assms
  by (auto simp: openslide_jpeg_propagate_error_def g_propagate_error_def my_output_message_def
        g_set_error_def split: option.splits)

text \<open>
  C6 at a session with a captured error: the first propagation hands the error over and
  empties the slot, a propagation from the emptied session hands over nothing, and with
  libjpeg's own handlers installed the assertion fails.
\<close>

theorem propagate_error_once_witness:
  "openslide_jpeg_propagate_error None
       (fresh_cinfo\<lparr>cinfo_err := Some (bridge (Some (library_error ''Premature end of JPEG file'')))\<rparr>) =
     Inr (Some (library_error ''Premature end of JPEG file''),
          fresh_cinfo\<lparr>cinfo_err := Some (bridge None)\<rparr>) \<and>
   openslide_jpeg_propagate_error None (fresh_cinfo\<lparr>cinfo_err := Some (bridge None)\<rparr>) =
     Inr (None, fresh_cinfo\<lparr>cinfo_err := Some (bridge None)\<rparr>) \<and>
   openslide_jpeg_propagate_error None
       (fresh_cinfo\<lparr>cinfo_err := Some (jpeg_std_error (bridge None))\<rparr>) = Inl Assertion_failed"
proof -
  let ?e = "library_error ''Premature end of JPEG file''"
  let ?c = "fresh_cinfo\<lparr>cinfo_err := Some (bridge (Some ?e))\<rparr>"
  have mine: "error_exit (bridge (Some ?e)) = Openslide_my" by (simp add: bridge_def)
  have "cinfo_err ?c = Some (bridge (Some ?e))" by simp
  from propagate_error_once [OF this, of None] mine
  obtain c' where
    first: "openslide_jpeg_propagate_error None ?c = Inr (err (bridge (Some ?e)), c')" and
    emptied: "cinfo_err c' = Some ((bridge (Some ?e))\<lparr>err := None\<rparr>)" and
    second: "openslide_jpeg_propagate_error None c' = Inr (None, c')"
    by blast
  from first have c': "c' = fresh_cinfo\<lparr>cinfo_err := Some (bridge None)\<rparr>"
    by (simp add: openslide_jpeg_propagate_error_def bridge_def)
  let ?d = "fresh_cinfo\<lparr>cinfo_err := Some (jpeg_std_error (bridge None))\<rparr>"
  have std: "error_exit (jpeg_std_error (bridge None)) \<noteq> Openslide_my"
    by (simp add: jpeg_std_error_def)
  have "cinfo_err ?d = Some (jpeg_std_error (bridge None))" by simp
  from propagate_error_once [OF this, of None] std
  have third: "openslide_jpeg_propagate_error None ?d = Inl Assertion_failed" by blast
  from first second third c' show ?thesis by (simp add: bridge_def)
qed

subsection \<open>The session life cycle\<close>

text \<open>
  Claim C7. Whatever the codec does and whatever the arguments are, the probe returns
  normally: no assertion of \<open>_openslide_jpeg_propagate_error\<close> or of
  \<open>_openslide_jpeg_destroy_decompress\<close> fails, so the pending error is empty when the
  session is destroyed, and on return the decompression object and the error manager
  are released (the allocator is as it was at the call). The same holds for every call
  of the decoder that returns, on the success path, on a failure found by the file
  itself and after a \<open>longjmp\<close>.
\<close>

theorem session_destroyed:
  "(\<exists>r. jpeg_get_dimensions codec w h errp hp = Inr r \<and> p_heap r = hp) \<and>
   (\<forall>x. jpeg_decode codec grayscale w h errp hp = Some x \<longrightarrow>
        (\<exists>r. x = Inr r \<and> d_heap r = hp))"
proof
  show "\<exists>r. jpeg_get_dimensions codec w h errp hp = Inr r \<and> p_heap r = hp"
    by (simp add: jpeg_get_dimensions_script probe_failed_def split: sum.splits option.splits)
next
  show "\<forall>x. jpeg_decode codec grayscale w h errp hp = Some x \<longrightarrow>
          (\<exists>r. x = Inr r \<and> d_heap r = hp)"
    using jpeg_decode_returns by blast
qed

text \<open>
  C7 on two failing calls: a probe of a stream that is no JPEG, and a decode that is cut
  short by a warning after the first row (the \<open>longjmp\<close> path).
\<close>

theorem session_destroyed_witness:
  "(\<exists>r. jpeg_get_dimensions not_jpeg_codec 0 0 None hp0 = Inr r \<and> p_heap r = hp0 \<and> \<not> p_ok r) \<and>
   (\<exists>r. jpeg_decode truncated_codec False 2 2 None hp0 = Some (Inr r) \<and> d_heap r = hp0 \<and>
        \<not> d_ok r)"
proof -
  from session_destroyed [of not_jpeg_codec 0 0 None hp0]
  obtain r where r: "jpeg_get_dimensions not_jpeg_codec 0 0 None hp0 = Inr r" "p_heap r = hp0"
    by blast
  have "jpeg_get_dimensions not_jpeg_codec 0 0 None hp0 =
          Inr (probe_failed 0 0 (Some (library_error ''Not a JPEG file: starts with 0x49 0x49'')) hp0)"
    by code_simp
  with r have "\<not> p_ok r" by (auto simp: probe_failed_def)
  moreover
  from session_destroyed [of truncated_codec 2 2 None hp0 False] truncated_decode
  have "\<exists>r. jpeg_decode truncated_codec False 2 2 None hp0 = Some (Inr r) \<and> d_heap r = hp0 \<and> \<not> d_ok r"
    by simp
  ultimately show ?thesis using r by blast
qed

subsection \<open>The dimension probe\<close>

text \<open>
  Claim C8. A call of the probe with an empty error slot returns false if and only if it
  leaves an error in the slot. When it returns false, \<open>*w\<close> and \<open>*h\<close> hold what they
  held at the call; when it returns true, they hold the output width and height that
  \<open>jpeg_calc_output_dimensions\<close> computed.
\<close>

theorem probe_out_parameters:
  "\<exists>r. jpeg_get_dimensions codec w h None hp = Inr r \<and>
       (p_ok r \<longleftrightarrow> p_err r = None) \<and>
       (\<not> p_ok r \<longrightarrow> p_w r = w \<and> p_h r = h) \<and>
       (p_ok r \<longrightarrow> first_failure (jpeg_calc_output_dimensions codec) = Inr (p_w r, p_h r))"
  by (auto simp: jpeg_get_dimensions_script probe_script_def probe_failed_def
        g_propagate_error_def g_set_error_def split: sum.splits option.splits)

text \<open>
  C8 on a 64 by 64 tile (success: 64 and 64 are stored) and on a stream that is no JPEG
  (failure: the 7 and 9 that \<open>*w\<close> and \<open>*h\<close> held are still there).
\<close>

theorem probe_out_parameters_witness:
  "(\<exists>r. jpeg_get_dimensions (solid_codec 64 64 red_row) 7 9 None hp0 = Inr r \<and>
        p_ok r \<and> p_err r = None \<and> p_w r = 64 \<and> p_h r = 64) \<and>
   (\<exists>r. jpeg_get_dimensions not_jpeg_codec 7 9 None hp0 = Inr r \<and>
        \<not> p_ok r \<and> p_err r \<noteq> None \<and> p_w r = 7 \<and> p_h r = 9)"
proof -
  from probe_out_parameters [of "solid_codec 64 64 red_row" 7 9 hp0]
  obtain r where
    r: "jpeg_get_dimensions (solid_codec 64 64 red_row) 7 9 None hp0 = Inr r" and
    iff: "p_ok r \<longleftrightarrow> p_err r = None" and
    dims: "p_ok r \<longrightarrow>
      first_failure (jpeg_calc_output_dimensions (solid_codec 64 64 red_row)) = Inr (p_w r, p_h r)"
    by (elim exE conjE) (rule that)
  have "jpeg_get_dimensions (solid_codec 64 64 red_row) 7 9 None hp0 =
     Inr \<lparr>p_ok = True, p_w = 64, p_h = 64, p_err = None, p_heap = hp0\<rparr>"
    by code_simp
  with r have ok: "p_ok r" by auto
  with iff have none: "p_err r = None" by simp
  from ok dims have "p_w r = 64 \<and> p_h r = 64" by (simp add: solid_codec_def)
  with r ok none have good:
    "\<exists>r. jpeg_get_dimensions (solid_codec 64 64 red_row) 7 9 None hp0 = Inr r \<and>
        p_ok r \<and> p_err r = None \<and> p_w r = 64 \<and> p_h r = 64"
    by blast
  from probe_out_parameters [of not_jpeg_codec 7 9 hp0]
  obtain r' where
    r': "jpeg_get_dimensions not_jpeg_codec 7 9 None hp0 = Inr r'" and
    iff': "p_ok r' \<longleftrightarrow> p_err r' = None" and
    unwritten: "\<not> p_ok r' \<longrightarrow> p_w r' = 7 \<and> p_h r' = 9"
    by (elim exE conjE) (rule that)
  have "jpeg_get_dimensions not_jpeg_codec 7 9 None hp0 =
     Inr \<lparr>p_ok = False, p_w = 7, p_h = 9,
          p_err = Some (library_error ''Not a JPEG file: starts with 0x49 0x49''),
          p_heap = hp0\<rparr>"
    by code_simp
  with r' have failed: "\<not> p_ok r'" by auto
  with iff' unwritten have "p_err r' \<noteq> None \<and> p_w r' = 7 \<and> p_h r' = 9" by simp
  with r' failed have bad:
    "\<exists>r. jpeg_get_dimensions not_jpeg_codec 7 9 None hp0 = Inr r \<and>
        \<not> p_ok r \<and> p_err r \<noteq> None \<and> p_w r = 7 \<and> p_h r = 9"
    by blast
  from good bad show ?thesis by (rule conjI)
qed

subsection \<open>Associated images\<close>

text \<open>
  Claim C9. A registration runs the file probe, which always returns. If the probe
  fails, the registration returns false, the error left by the probe has its message
  prefixed with "Can't read <name> associated image: ", and the table of associated
  images is unchanged. If the probe succeeds, the registration returns true and the
  table maps the name to an image with the probed width and height, the given file name
  and offset and the JPEG operations.
\<close>

theorem add_associated_image_registers:
  "\<exists>r fops.
     openslide_jpeg_read_dimensions env fname off w0 h0 errp hp = Inr (r, fops) \<and>
     (\<not> p_ok r \<longrightarrow>
        openslide_jpeg_add_associated_image env images name fname off w0 h0 errp hp =
          Inr \<lparr>a_ok = False, a_images = images,
               a_err = (case p_err r of
                          None \<Rightarrow> None
                        | Some e \<Rightarrow>
                            Some (e\<lparr>message :=
                              ''Can't read '' @ name @ '' associated image: '' @ message e\<rparr>)),
               a_heap = p_heap r, a_ops = fops\<rparr>) \<and>
     (p_ok r \<longrightarrow>
        openslide_jpeg_add_associated_image env images name fname off w0 h0 errp hp =
          Inr \<lparr>a_ok = True,
               a_images = images(name \<mapsto>
                 \<lparr>ops = Jpeg_associated_ops, base_w = p_w r, base_h = p_h r,
                  filename = fname, offset = off\<rparr>),
               a_err = p_err r, a_heap = p_heap r, a_ops = fops\<rparr>)"
proof -
  from read_dimensions_returns [of env fname off w0 h0 errp hp]
  obtain r fops where
    rd: "openslide_jpeg_read_dimensions env fname off w0 h0 errp hp = Inr (r, fops)"
    by blast
  then show ?thesis
    by (auto simp: openslide_jpeg_add_associated_image_def g_prefix_error_def
          split: option.splits)
qed

text \<open>
  C9 on \<open>slide.tif\<close>: registering the tile at offset 4096 as "thumbnail" succeeds
  with dimensions 64 by 64; registering offset 0 as "label" fails with the prefixed
  codec message and leaves the table empty.
\<close>

theorem add_associated_image_registers_witness:
  "openslide_jpeg_add_associated_image slide_env Map.empty ''thumbnail'' ''slide.tif'' 4096 0 0
       None hp0 =
     Inr \<lparr>a_ok = True,
          a_images = [''thumbnail'' \<mapsto>
            \<lparr>ops = Jpeg_associated_ops, base_w = 64, base_h = 64,
             filename = ''slide.tif'', offset = 4096\<rparr>],
          a_err = None, a_heap = hp0,
          a_ops = [Fopen ''slide.tif'', Fseeko 3 4096, Fclose 3]\<rparr> \<and>
   openslide_jpeg_add_associated_image slide_env Map.empty ''label'' ''slide.tif'' 0 0 0
       None hp0 =
     Inr \<lparr>a_ok = False, a_images = Map.empty,
          a_err = Some \<lparr>domain = OPENSLIDE_ERROR, code = OPENSLIDE_ERROR_FAILED,
                        message = ''Can't read label associated image: Not a JPEG file: starts with 0x49 0x49''\<rparr>,
          a_heap = hp0, a_ops = [Fopen ''slide.tif'', Fclose 3]\<rparr>"
  using add_associated_image_registers
          [of slide_env "''slide.tif''" 4096 0 0 None hp0 Map.empty "''thumbnail''"]
        add_associated_image_registers
          [of slide_env "''slide.tif''" 0 0 0 None hp0 Map.empty "''label''"]
  by (simp add: slide_probe_4096 slide_probe_0 library_error_def)

subsection \<open>Seeking\<close>

text \<open>
  Claim C10. With offset zero, the file probe and the file decoder do not call
  \<open>fseeko\<close>: their results do not depend on what \<open>fseeko\<close> or
  \<open>_openslide_io_error\<close> would do, and no seek is among the stream calls they make.
  With a nonzero offset, on a stream that opened, a seek that returns \<open>-1\<close> makes
  both return false with the error that \<open>_openslide_io_error\<close> makes of
  "Cannot seek to offset", after opening, seeking and closing the stream and nothing
  else: no session is created, \<open>*w\<close> and \<open>*h\<close> are not written and no store is
  made.
\<close>

theorem zero_offset_no_seek:
  "(\<forall>sk ioe.
      openslide_jpeg_read_dimensions (env\<lparr>fseeko := sk, openslide_io_error := ioe\<rparr>)
          fname 0 w h errp hp =
        openslide_jpeg_read_dimensions env fname 0 w h errp hp \<and>
      openslide_jpeg_read (env\<lparr>fseeko := sk, openslide_io_error := ioe\<rparr>) fname 0 w h errp hp =
        openslide_jpeg_read env fname 0 w h errp hp) \<and>
   (\<forall>r fops f pos.
      openslide_jpeg_read_dimensions env fname 0 w h errp hp = Inr (r, fops) \<longrightarrow>
        Fseeko f pos \<notin> set fops) \<and>
   (\<forall>d fops f pos.
      openslide_jpeg_read env fname 0 w h errp hp = Some (Inr (d, fops)) \<longrightarrow>
        Fseeko f pos \<notin> set fops) \<and>
   (\<forall>f errp1.
      off \<noteq> 0 \<and> openslide_fopen env fname errp = (Some f, errp1) \<and> fseeko env f off = - 1 \<longrightarrow>
        openslide_jpeg_read_dimensions env fname off w h errp hp =
          Inr (\<lparr>p_ok = False, p_w = w, p_h = h,
                p_err = openslide_io_error env errp1 ''Cannot seek to offset'', p_heap = hp\<rparr>,
               [Fopen fname, Fseeko f off, Fclose f]) \<and>
        openslide_jpeg_read env fname off w h errp hp =
          Some (Inr (\<lparr>d_ok = False, d_stores = [],
                      d_err = openslide_io_error env errp1 ''Cannot seek to offset'',
                      d_heap = hp\<rparr>,
                     [Fopen fname, Fseeko f off, Fclose f])))"
proof (intro conjI allI impI)
  fix sk ioe
  show "openslide_jpeg_read_dimensions (env\<lparr>fseeko := sk, openslide_io_error := ioe\<rparr>)
          fname 0 w h errp hp =
        openslide_jpeg_read_dimensions env fname 0 w h errp hp"
    by (simp add: openslide_jpeg_read_dimensions_def split: prod.splits option.splits)
  show "openslide_jpeg_read (env\<lparr>fseeko := sk, openslide_io_error := ioe\<rparr>) fname 0 w h errp hp =
        openslide_jpeg_read env fname 0 w h errp hp"
    by (simp add: openslide_jpeg_read_def split: prod.splits option.splits)
next
  fix r fops f pos
  assume "openslide_jpeg_read_dimensions env fname 0 w h errp hp = Inr (r, fops)"
  then show "Fseeko f pos \<notin> set fops"
    by (auto simp: openslide_jpeg_read_dimensions_def split: prod.splits option.splits sum.splits)
next
  fix d fops f pos
  assume "openslide_jpeg_read env fname 0 w h errp hp = Some (Inr (d, fops))"
  then show "Fseeko f pos \<notin> set fops"
    by (auto simp: openslide_jpeg_read_def split: prod.splits option.splits sum.splits)
next
  fix f errp1
  assume a: "off \<noteq> 0 \<and> openslide_fopen env fname errp = (Some f, errp1) \<and> fseeko env f off = - 1"
  then show "openslide_jpeg_read_dimensions env fname off w h errp hp =
          Inr (\<lparr>p_ok = False, p_w = w, p_h = h,
                p_err = openslide_io_error env errp1 ''Cannot seek to offset'', p_heap = hp\<rparr>,
               [Fopen fname, Fseeko f off, Fclose f])"
    by (simp add: openslide_jpeg_read_dimensions_def)
  from a show "openslide_jpeg_read env fname off w h errp hp =
          Some (Inr (\<lparr>d_ok = False, d_stores = [],
                      d_err = openslide_io_error env errp1 ''Cannot seek to offset'',
                      d_heap = hp\<rparr>,
                     [Fopen fname, Fseeko f off, Fclose f]))"
    by (simp add: openslide_jpeg_read_def)
qed

text \<open>
  C10 on \<open>slide.tif\<close>: at offset 0 the stream is opened and closed without a seek;
  at offset 9000, past the end of the file, the seek fails and both operations return
  the I/O error.
\<close>

theorem zero_offset_no_seek_witness:
  "openslide_jpeg_read_dimensions slide_env ''slide.tif'' 0 0 0 None hp0 =
     Inr (\<lparr>p_ok = False, p_w = 0, p_h = 0,
           p_err = Some (library_error ''Not a JPEG file: starts with 0x49 0x49''),
           p_heap = hp0\<rparr>,
          [Fopen ''slide.tif'', Fclose 3]) \<and>
   Fseeko 3 0 \<notin> set [Fopen ''slide.tif'', Fclose 3] \<and>
   openslide_jpeg_read_dimensions slide_env ''slide.tif'' 9000 0 0 None hp0 =
     Inr (\<lparr>p_ok = False, p_w = 0, p_h = 0,
           p_err = Some \<lparr>domain = Other_domain ''g-file-error-quark'', code = Other_code 13,
                         message = ''Cannot seek to offset: Invalid argument''\<rparr>,
           p_heap = hp0\<rparr>,
          [Fopen ''slide.tif'', Fseeko 3 9000, Fclose 3]) \<and>
   openslide_jpeg_read slide_env ''slide.tif'' 9000 64 64 None hp0 =
     Some (Inr (\<lparr>d_ok = False, d_stores = [],
                 d_err = Some \<lparr>domain = Other_domain ''g-file-error-quark'', code = Other_code 13,
                               message = ''Cannot seek to offset: Invalid argument''\<rparr>,
                 d_heap = hp0\<rparr>,
                [Fopen ''slide.tif'', Fseeko 3 9000, Fclose 3]))"
proof -
  have open3: "openslide_fopen slide_env ''slide.tif'' None = (Some 3, None)"
    by (simp add: slide_env_def)
  have seek: "(9000 :: 64 word) \<noteq> 0" "fseeko slide_env 3 9000 = - 1"
    by (simp_all add: slide_env_def)
  have ioe: "openslide_io_error slide_env None ''Cannot seek to offset'' =
      Some \<lparr>domain = Other_domain ''g-file-error-quark'', code = Other_code 13,
            message = ''Cannot seek to offset: Invalid argument''\<rparr>"
    by (simp add: slide_env_def g_set_error_def)
  note z = zero_offset_no_seek [of slide_env "''slide.tif''" 0 0 None hp0 9000]
  from z slide_probe_0 have "Fseeko 3 0 \<notin> set [Fopen ''slide.tif'', Fclose 3]" by blast
  moreover
  from z open3 seek
  have "openslide_jpeg_read_dimensions slide_env ''slide.tif'' 9000 0 0 None hp0 =
          Inr (\<lparr>p_ok = False, p_w = 0, p_h = 0,
                p_err = openslide_io_error slide_env None ''Cannot seek to offset'', p_heap = hp0\<rparr>,
               [Fopen ''slide.tif'', Fseeko 3 9000, Fclose 3])"
    by blast
  moreover
  from zero_offset_no_seek [of slide_env "''slide.tif''" 64 64 None hp0 9000] open3 seek
  have "openslide_jpeg_read slide_env ''slide.tif'' 9000 64 64 None hp0 =
          Some (Inr (\<lparr>d_ok = False, d_stores = [],
                      d_err = openslide_io_error slide_env None ''Cannot seek to offset'',
                      d_heap = hp0\<rparr>,
                     [Fopen ''slide.tif'', Fseeko 3 9000, Fclose 3]))"
    by blast
  ultimately show ?thesis using slide_probe_0 ioe by simp
qed

end
